theory Spec2Isabelle
  imports Complex_Main
begin

section \<open>Python values used by the analyzer\<close>

text \<open>
  The two programs of the repository, \<^verbatim>\<open>market_analyzer.py\<close> (the full analyzer) and
  \<^verbatim>\<open>app.py\<close> (the dashboard variant), are embedded function by function. Prices,
  volumes and indicator values are the finite floats of the source, read as reals;
  a value that pandas leaves undefined (NaN) is \<open>None\<close>, and every comparison with it
  is false, as in IEEE arithmetic.
\<close>

datatype error = KeyError | SoundError

text \<open>
  \<^verbatim>\<open>playsound("alert.mp3")\<close> is called outside any \<^verbatim>\<open>try\<close>: a call either returns
  or raises, and a raise leaves the method that made it. A sound player gives the
  outcome of each successive call made during one method call: \<open>True\<close> when the call
  returns.
\<close>

type_synonym player = "nat \<Rightarrow> bool"

type_synonym pyfloat = "real option"

definition flt :: "pyfloat \<Rightarrow> pyfloat \<Rightarrow> bool" where
  "flt a b = (case (a, b) of (Some x, Some y) \<Rightarrow> x < y | _ \<Rightarrow> False)"

definition fgt :: "pyfloat \<Rightarrow> pyfloat \<Rightarrow> bool" where
  "fgt a b = (case (a, b) of (Some x, Some y) \<Rightarrow> x > y | _ \<Rightarrow> False)"

definition fle :: "pyfloat \<Rightarrow> pyfloat \<Rightarrow> bool" where
  "fle a b = (case (a, b) of (Some x, Some y) \<Rightarrow> x \<le> y | _ \<Rightarrow> False)"

definition fge :: "pyfloat \<Rightarrow> pyfloat \<Rightarrow> bool" where
  "fge a b = (case (a, b) of (Some x, Some y) \<Rightarrow> x \<ge> y | _ \<Rightarrow> False)"

section \<open>Insertion-ordered dictionaries\<close>

text \<open>
  A Python \<^verbatim>\<open>dict\<close> iterates in insertion order, and assigning to a key that is
  already present keeps the key's position. The dictionary is an association list
  with distinct keys; \<^verbatim>\<open>del d[k]\<close> raises \<^verbatim>\<open>KeyError\<close> when the key is missing.
\<close>

type_synonym ('k, 'v) dict = "('k \<times> 'v) list"

definition dict_keys :: "('k, 'v) dict \<Rightarrow> 'k list" where
  "dict_keys d = map fst d"

definition dict_set :: "'k \<Rightarrow> 'v \<Rightarrow> ('k, 'v) dict \<Rightarrow> ('k, 'v) dict" where
  "dict_set k v d =
     (if k \<in> set (dict_keys d)
      then map (\<lambda>(k', v'). if k' = k then (k', v) else (k', v')) d
      else d @ [(k, v)])"

definition dict_del :: "'k \<Rightarrow> ('k, 'v) dict \<Rightarrow> error + ('k, 'v) dict" where
  "dict_del k d =
     (if k \<in> set (dict_keys d) then Inr (filter (\<lambda>(k', v'). k' \<noteq> k) d) else Inl KeyError)"

definition dict_get :: "('k, 'v) dict \<Rightarrow> 'k \<Rightarrow> 'v \<Rightarrow> 'v" where
  "dict_get d k dflt = (case map_of d k of Some v \<Rightarrow> v | None \<Rightarrow> dflt)"

section \<open>The analyzer object of market_analyzer.py\<close>

text \<open>
  \<^verbatim>\<open>CryptoAnalyzer.__init__\<close>: the ticker, the price alerts (target price to alert
  type), the previous volume and the surge threshold. The chart directory is left out.
\<close>

record analyzer =
  ticker :: string
  price_alerts :: "(real, string) dict"
  last_volume :: "real option"
  volume_alert_threshold :: real

definition init :: "string \<Rightarrow> analyzer" where
  "init t = \<lparr>ticker = t, price_alerts = [], last_volume = None, volume_alert_threshold = 2\<rparr>"

definition set_price_alert :: "real \<Rightarrow> string \<Rightarrow> analyzer \<Rightarrow> analyzer" where
  "set_price_alert target_price alert_type s =
     s\<lparr>price_alerts := dict_set target_price alert_type (price_alerts s)\<rparr>"

subsection \<open>check_price_alerts\<close>

text \<open>
  The first loop of \<^verbatim>\<open>check_price_alerts\<close> walks the dictionary in order and, for
  each entry that fires, prints the alert, plays the sound and appends the target to
  \<^verbatim>\<open>alerts_to_remove\<close>. \<open>alert_loop sound k\<close> runs it from the \<open>k\<close>-th call of the
  player on: it returns the alerts printed and whether the loop ran to its end. When
  the player raises, the alert just printed is the last one and the loop is left.
\<close>

fun alert_loop ::
  "player \<Rightarrow> nat \<Rightarrow> real \<Rightarrow> (real, string) dict \<Rightarrow> (real \<times> string) list \<times> bool" where
  "alert_loop sound k current_price [] = ([], True)"
| "alert_loop sound k current_price ((target_price, alert_type) # rest) =
     (if alert_type = ''above'' \<and> current_price > target_price
      then (if sound k
            then (let r = alert_loop sound (Suc k) current_price rest
                  in ((target_price, alert_type) # fst r, snd r))
            else ([(target_price, alert_type)], False))
      else if alert_type = ''below'' \<and> current_price < target_price
      then (if sound k
            then (let r = alert_loop sound (Suc k) current_price rest
                  in ((target_price, alert_type) # fst r, snd r))
            else ([(target_price, alert_type)], False))
      else alert_loop sound k current_price rest)"

text \<open>The second loop: \<^verbatim>\<open>for price in alerts_to_remove: del self.price_alerts[price]\<close>.\<close>

fun remove_alerts :: "real list \<Rightarrow> (real, string) dict \<Rightarrow> error + (real, string) dict" where
  "remove_alerts [] d = Inr d"
| "remove_alerts (price # rest) d =
     (case dict_del price d of Inl e \<Rightarrow> Inl e | Inr d' \<Rightarrow> remove_alerts rest d')"

text \<open>
  The method returns nothing in the source. The model returns what a call leaves
  behind: the alerts it printed, the exception it raised if any, and the analyzer
  after the call. A call that raises has deleted nothing.
\<close>

definition check_price_alerts ::
  "player \<Rightarrow> real \<Rightarrow> analyzer \<Rightarrow> (real \<times> string) list \<times> error option \<times> analyzer" where
  "check_price_alerts sound current_price s =
     (let r = alert_loop sound 0 current_price (price_alerts s);
          printed = fst r
      in if \<not> snd r then (printed, Some SoundError, s)
         else (case remove_alerts (map fst printed) (price_alerts s) of
                 Inl e \<Rightarrow> (printed, Some e, s)
               | Inr d \<Rightarrow> (printed, None, s\<lparr>price_alerts := d\<rparr>)))"

text \<open>The three components of what a call leaves behind.\<close>

definition shown :: "'a \<times> 'b \<times> 'c \<Rightarrow> 'a" where
  "shown r = fst r"

definition raised :: "'a \<times> 'b \<times> 'c \<Rightarrow> 'b" where
  "raised r = fst (snd r)"

definition after :: "'a \<times> 'b \<times> 'c \<Rightarrow> 'c" where
  "after r = snd (snd r)"

text \<open>The condition under which one entry fires, as the two branches test it.\<close>

definition fires :: "real \<Rightarrow> real \<times> string \<Rightarrow> bool" where
  "fires current_price e =
     (snd e = ''above'' \<and> current_price > fst e \<or> snd e = ''below'' \<and> current_price < fst e)"

section \<open>Market data and the indicator table\<close>

text \<open>
  A candle is one row of the OHLCV frame the provider returns. After
  \<^verbatim>\<open>calculate_indicators\<close> each row also carries the indicator columns; a column
  whose window is not yet filled holds NaN.
\<close>

record candle =
  px_open :: real
  high :: real
  low :: real
  close :: real
  volume :: real

record row = candle +
  RSI :: pyfloat
  MACD :: pyfloat
  MACD_Signal :: pyfloat
  MACD_Hist :: pyfloat
  Stoch_K :: pyfloat
  Stoch_D :: pyfloat
  ADX :: pyfloat
  DI_plus :: pyfloat
  DI_minus :: pyfloat
  OBV :: pyfloat
  Force_Index :: pyfloat
  Ichimoku_Conversion :: pyfloat
  Ichimoku_Base :: pyfloat
  Ichimoku_SpanA :: pyfloat
  Ichimoku_SpanB :: pyfloat
  MA5 :: pyfloat
  MA20 :: pyfloat
  MA60 :: pyfloat
  MA120 :: pyfloat
  BB_Middle :: pyfloat
  BB_Upper :: pyfloat
  BB_Lower :: pyfloat
  ROC :: pyfloat
  Upper_Channel :: pyfloat
  Lower_Channel :: pyfloat

section \<open>check_volume_surge\<close>

text \<open>
  The volumes are numpy scalars, so \<^verbatim>\<open>current_volume / self.last_volume\<close> does not
  raise on a zero divisor: it yields an infinity, or NaN for \<open>0 / 0\<close>. The quotient
  is therefore a value of its own type, and the comparison with the threshold is the
  IEEE one (an infinity exceeds every threshold, NaN exceeds none).
\<close>

datatype npfloat = Finite real | PosInf | NegInf | NaN

definition np_div :: "real \<Rightarrow> real \<Rightarrow> npfloat" where
  "np_div a b =
     (if b = 0 then (if a > 0 then PosInf else if a < 0 then NegInf else NaN)
      else Finite (a / b))"

fun np_gt :: "npfloat \<Rightarrow> real \<Rightarrow> bool" where
  "np_gt (Finite x) t = (x > t)"
| "np_gt PosInf t = True"
| "np_gt NegInf t = False"
| "np_gt NaN t = False"

text \<open>
  \<^verbatim>\<open>check_volume_surge(df)\<close> returns nothing in the source. The model returns the
  ratio it prints when it signals a surge (\<open>None\<close> when it stays silent), the
  exception it raised if any, and the analyzer after the call. The sound is played
  after the print and before the latest volume is stored, so a call in which the
  player raises has printed the surge and stored nothing.
\<close>

definition check_volume_surge ::
  "player \<Rightarrow> row list option \<Rightarrow> analyzer \<Rightarrow> npfloat option \<times> error option \<times> analyzer" where
  "check_volume_surge sound df s =
     (case df of
        None \<Rightarrow> (None, None, s)
      | Some rows \<Rightarrow>
          if length rows < 2 then (None, None, s)
          else
            let current_volume = volume (last rows);
                surge =
                  (case last_volume s of
                     None \<Rightarrow> None
                   | Some lv \<Rightarrow>
                       let volume_change = np_div current_volume lv
                       in if np_gt volume_change (volume_alert_threshold s)
                          then Some volume_change else None)
            in if surge \<noteq> None \<and> \<not> sound 0 then (surge, Some SoundError, s)
               else (surge, None, s\<lparr>last_volume := Some current_volume\<rparr>))"

section \<open>Fetching with retries\<close>

text \<open>
  One call of the provider either raises or returns a value, which may be \<^verbatim>\<open>None\<close>.
  A provider is the sequence of outcomes of its successive calls.
\<close>

datatype 'a response = Raises | Returns "'a option"

type_synonym 'a provider = "nat \<Rightarrow> 'a response"

text \<open>
  The retry loop that market_analyzer.py writes out at each call site:
  \<^verbatim>\<open>
  x = None
  for _ in range(3):
      try:
          x = call()
          if ok(x): break
          time.sleep(0.5)
      except Exception:
          time.sleep(0.5)
  \<close>
  \<open>fetch_loop ok n prov k sl x\<close> runs the \<open>n\<close> remaining iterations, \<open>k\<close> calls and
  \<open>sl\<close> sleeps of half a second having been made. It returns the final value of the
  variable, the number of calls and the number of sleeps.
\<close>

fun fetch_loop ::
  "('a option \<Rightarrow> bool) \<Rightarrow> nat \<Rightarrow> 'a provider \<Rightarrow> nat \<Rightarrow> nat \<Rightarrow> 'a option \<Rightarrow> 'a option \<times> nat \<times> nat" where
  "fetch_loop ok 0 prov k sl x = (x, k, sl)"
| "fetch_loop ok (Suc n) prov k sl x =
     (case prov k of
        Raises \<Rightarrow> fetch_loop ok n prov (Suc k) (Suc sl) x
      | Returns r \<Rightarrow>
          if ok r then (r, Suc k, sl)
          else fetch_loop ok n prov (Suc k) (Suc sl) r)"

definition price_ok :: "real option \<Rightarrow> bool" where
  "price_ok price = (price \<noteq> None)"

definition frame_ok :: "'r list option \<Rightarrow> bool" where
  "frame_ok df = (df \<noteq> None \<and> df \<noteq> Some [])"

text \<open>\<^verbatim>\<open>get_current_price\<close> of market_analyzer.py, with its call and sleep counts.\<close>

definition get_current_price_run :: "real provider \<Rightarrow> real option \<times> nat \<times> nat" where
  "get_current_price_run prov = fetch_loop price_ok 3 prov 0 0 None"

definition get_current_price :: "real provider \<Rightarrow> real option" where
  "get_current_price prov = fst (get_current_price_run prov)"

text \<open>The fetch at the head of \<^verbatim>\<open>calculate_indicators\<close> of market_analyzer.py.\<close>

definition get_ohlcv_run :: "candle list provider \<Rightarrow> candle list option \<times> nat \<times> nat" where
  "get_ohlcv_run prov = fetch_loop frame_ok 3 prov 0 0 None"

text \<open>
  The indicator columns come from the \<^verbatim>\<open>ta\<close> and pandas libraries, which are not part
  of the repository: the library stage is a parameter. Given the frame it either
  raises (\<open>None\<close>) or yields the indicator values of each row index; the OHLCV columns
  of the frame stay as fetched.
\<close>

type_synonym ta_library = "candle list \<Rightarrow> (nat \<Rightarrow> row) option"

definition with_candle :: "candle \<Rightarrow> row \<Rightarrow> row" where
  "with_candle c r =
     r\<lparr>px_open := px_open c, high := high c, low := low c, close := close c, volume := volume c\<rparr>"

definition add_columns :: "candle list \<Rightarrow> (nat \<Rightarrow> row) \<Rightarrow> row list" where
  "add_columns df cols = map (\<lambda>i. with_candle (df ! i) (cols i)) [0..<length df]"

definition calculate_indicators :: "candle list provider \<Rightarrow> ta_library \<Rightarrow> row list option" where
  "calculate_indicators prov lib =
     (case fst (get_ohlcv_run prov) of
        None \<Rightarrow> None
      | Some df \<Rightarrow>
          if df = [] then None
          else (case lib df of None \<Rightarrow> None | Some cols \<Rightarrow> Some (add_columns df cols)))"

section \<open>analyze_signals of market_analyzer.py\<close>

text \<open>
  The observation strings are fixed Korean texts; each is named by a constructor, in
  the order of the source.
\<close>

datatype observation =
    RSI_oversold | RSI_overbought
  | MACD_up_stronger | MACD_up | MACD_down_stronger | MACD_down
  | MA_golden_cross | MA_dead_cross
  | BB_lower_break | BB_upper_break
  | Stoch_oversold_rebound | Stoch_overbought_drop
  | DMI_strong_up | DMI_strong_down
  | OBV_up | OBV_down
  | Ichimoku_up | Ichimoku_down
  | ROC_strong_up | ROC_strong_down
  | Upper_channel_break | Lower_channel_break

text \<open>
  \<^verbatim>\<open>signals.append(text); signal_strength += d\<close> on the pair of the two local
  variables.
\<close>

definition emit :: "'o \<Rightarrow> int \<Rightarrow> 'o list \<times> int \<Rightarrow> 'o list \<times> int" where
  "emit text d st = (fst st @ [text], snd st + d)"

text \<open>\<^verbatim>\<open>signals.append(text)\<close> alone, as in the two plain MACD branches.\<close>

definition remark :: "'o \<Rightarrow> 'o list \<times> int \<Rightarrow> 'o list \<times> int" where
  "remark text st = (fst st @ [text], snd st)"

text \<open>
  \<^verbatim>\<open>df['OBV'].rolling(window=20).mean().iloc[-1]\<close>: the mean of the last \<open>w\<close>
  values, NaN when fewer than \<open>w\<close> rows exist or one of them is NaN.
\<close>

definition rolling_mean_last :: "nat \<Rightarrow> pyfloat list \<Rightarrow> pyfloat" where
  "rolling_mean_last w xs =
     (if length xs < w then None
      else let win = drop (length xs - w) xs
           in if None \<in> set win then None
              else Some (sum_list (map the win) / real w))"

text \<open>
  Lines 234 to 317: the ten rule blocks, each an \<^verbatim>\<open>if\<close>/\<^verbatim>\<open>elif\<close> statement that
  updates \<^verbatim>\<open>signals\<close> and \<^verbatim>\<open>signal_strength\<close>. Each block is a function of the
  values it reads and of the pair of the two variables.
\<close>

type_synonym tally = "observation list \<times> int"

definition block_rsi :: "row \<Rightarrow> tally \<Rightarrow> tally" where
  "block_rsi latest st =
     (if flt (RSI latest) (Some 30) then emit RSI_oversold 1 st
      else if fgt (RSI latest) (Some 70) then emit RSI_overbought (- 1) st
      else st)"

definition block_macd :: "row \<Rightarrow> pyfloat \<Rightarrow> tally \<Rightarrow> tally" where
  "block_macd latest prev_hist st =
     (if fgt (MACD latest) (MACD_Signal latest)
      then (if fgt (MACD_Hist latest) prev_hist then emit MACD_up_stronger 1 st
            else remark MACD_up st)
      else (if flt (MACD_Hist latest) prev_hist then emit MACD_down_stronger (- 1) st
            else remark MACD_down st))"

definition block_ma :: "row \<Rightarrow> tally \<Rightarrow> tally" where
  "block_ma latest st =
     (if fgt (MA5 latest) (MA20 latest) \<and> fgt (MA20 latest) (MA60 latest)
      then emit MA_golden_cross 1 st
      else if flt (MA5 latest) (MA20 latest) \<and> flt (MA20 latest) (MA60 latest)
      then emit MA_dead_cross (- 1) st
      else st)"

definition block_bollinger :: "row \<Rightarrow> real \<Rightarrow> tally \<Rightarrow> tally" where
  "block_bollinger latest current_price st =
     (if flt (Some current_price) (BB_Lower latest) then emit BB_lower_break 1 st
      else if fgt (Some current_price) (BB_Upper latest) then emit BB_upper_break (- 1) st
      else st)"

definition block_stochastic :: "row \<Rightarrow> tally \<Rightarrow> tally" where
  "block_stochastic latest st =
     (if flt (Stoch_K latest) (Some 20) \<and> fgt (Stoch_K latest) (Stoch_D latest)
      then emit Stoch_oversold_rebound 1 st
      else if fgt (Stoch_K latest) (Some 80) \<and> flt (Stoch_K latest) (Stoch_D latest)
      then emit Stoch_overbought_drop (- 1) st
      else st)"

definition block_dmi :: "row \<Rightarrow> tally \<Rightarrow> tally" where
  "block_dmi latest st =
     (if fgt (DI_plus latest) (DI_minus latest) \<and> fgt (ADX latest) (Some 25)
      then emit DMI_strong_up 1 st
      else if fgt (DI_minus latest) (DI_plus latest) \<and> fgt (ADX latest) (Some 25)
      then emit DMI_strong_down (- 1) st
      else st)"

definition block_obv :: "row \<Rightarrow> pyfloat \<Rightarrow> tally \<Rightarrow> tally" where
  "block_obv latest obv_ma_last st =
     (if fgt (OBV latest) obv_ma_last then emit OBV_up 1 st
      else if flt (OBV latest) obv_ma_last then emit OBV_down (- 1) st
      else st)"

definition block_ichimoku :: "row \<Rightarrow> tally \<Rightarrow> tally" where
  "block_ichimoku latest st =
     (if fgt (Some (close latest)) (Ichimoku_SpanA latest)
         \<and> fgt (Some (close latest)) (Ichimoku_SpanB latest)
      then emit Ichimoku_up 1 st
      else if flt (Some (close latest)) (Ichimoku_SpanA latest)
         \<and> flt (Some (close latest)) (Ichimoku_SpanB latest)
      then emit Ichimoku_down (- 1) st
      else st)"

definition block_roc :: "row \<Rightarrow> tally \<Rightarrow> tally" where
  "block_roc latest st =
     (if fgt (ROC latest) (Some 5) then emit ROC_strong_up 1 st
      else if flt (ROC latest) (Some (- 5)) then emit ROC_strong_down (- 1) st
      else st)"

definition block_channel :: "row \<Rightarrow> real \<Rightarrow> tally \<Rightarrow> tally" where
  "block_channel latest current_price st =
     (if fge (Some current_price) (Upper_Channel latest) then emit Upper_channel_break 1 st
      else if fle (Some current_price) (Lower_Channel latest) then emit Lower_channel_break (- 1) st
      else st)"

text \<open>
  Lines 213 to 317 in sequence. The caller has checked that the frame has at least 60
  rows, so \<^verbatim>\<open>iloc[-1]\<close> and \<^verbatim>\<open>iloc[-2]\<close> are in range.
\<close>

definition rule_blocks :: "row list \<Rightarrow> real \<Rightarrow> tally" where
  "rule_blocks df current_price =
     (let latest = last df;
          st = ([], 0);
          st = block_rsi latest st;
          st = block_macd latest (MACD_Hist (df ! (length df - 2))) st;
          st = block_ma latest st;
          st = block_bollinger latest current_price st;
          st = block_stochastic latest st;
          st = block_dmi latest st;
          obv_ma = rolling_mean_last 20 (map OBV df);
          st = block_obv latest obv_ma st;
          st = block_ichimoku latest st;
          st = block_roc latest st;
          st = block_channel latest current_price st
      in st)"

text \<open>
  The result is a Python dictionary with string keys. Its values are strings, floats,
  integers or the list of observations.
\<close>

datatype pyval = PyStr string | PyFloat pyfloat | PyInt int | PySignals "observation list"

type_synonym result = "(string, pyval) dict"

definition initial_result :: "string \<Rightarrow> real \<Rightarrow> row \<Rightarrow> result" where
  "initial_result tk current_price latest =
     [(''ticker'', PyStr tk),
      (''current_price'', PyFloat (Some current_price)),
      (''signals'', PySignals []),
      (''signal_strength'', PyInt 0),
      (''rsi'', PyFloat (RSI latest)),
      (''ma5'', PyFloat (MA5 latest)),
      (''ma20'', PyFloat (MA20 latest)),
      (''ma60'', PyFloat (MA60 latest)),
      (''Stoch_K'', PyFloat (Stoch_K latest)),
      (''Stoch_D'', PyFloat (Stoch_D latest)),
      (''ADX'', PyFloat (ADX latest)),
      (''DI_plus'', PyFloat (DI_plus latest)),
      (''DI_minus'', PyFloat (DI_minus latest)),
      (''OBV'', PyFloat (OBV latest))]"

text \<open>Lines 213 to 321: the dictionary, the rule blocks, and the two final stores.\<close>

definition build_result :: "string \<Rightarrow> real \<Rightarrow> row list \<Rightarrow> result" where
  "build_result tk current_price df =
     (let result = initial_result tk current_price (last df);
          st = rule_blocks df current_price;
          result = dict_set ''signals'' (PySignals (fst st)) result;
          result = dict_set ''signal_strength'' (PyInt (snd st)) result
      in result)"

text \<open>
  The whole method, with the sound players of its two checks. The chart, drawn in
  the first quarter of each minute, only writes a file and is left out. An exception
  of either check leaves the method (the caller catches it); the model then returns
  the exception alone.
\<close>

definition analyze_signals ::
  "real provider \<Rightarrow> candle list provider \<Rightarrow> ta_library \<Rightarrow> player \<Rightarrow> player \<Rightarrow> analyzer
     \<Rightarrow> error + (result option \<times> analyzer)" where
  "analyze_signals price_prov ohlcv_prov lib surge_sound alert_sound s =
     (case get_current_price price_prov of
        None \<Rightarrow> Inr (None, s)
      | Some current_price \<Rightarrow>
          (case calculate_indicators ohlcv_prov lib of
             None \<Rightarrow> Inr (None, s)
           | Some df \<Rightarrow>
               if length df < 60 then Inr (None, s)
               else
                 let v = check_volume_surge surge_sound (Some df) s
                 in case raised v of
                      Some e \<Rightarrow> Inl e
                    | None \<Rightarrow>
                        let a = check_price_alerts alert_sound current_price (after v)
                        in case raised a of
                             Some e \<Rightarrow> Inl e
                           | None \<Rightarrow>
                               Inr (Some (build_result (ticker s) current_price df),
                                    after a)))"

section \<open>The volume block of print_analysis_result\<close>

text \<open>
  \<^verbatim>\<open>
  if 'OBV' in result:
      if result['OBV'] > result.get('OBV_MA', 0): print(buyers lead)
      else: print(sellers lead)
  \<close>
\<close>

datatype obv_line = OBV_buyers_lead | OBV_sellers_lead

fun number :: "pyval \<Rightarrow> pyfloat" where
  "number (PyFloat x) = x"
| "number (PyInt i) = Some (real_of_int i)"
| "number (PyStr v) = None"
| "number (PySignals v) = None"

definition print_obv_line :: "result \<Rightarrow> obv_line option" where
  "print_obv_line result =
     (case map_of result ''OBV'' of
        None \<Rightarrow> None
      | Some obv \<Rightarrow>
          if fgt (number obv) (number (dict_get result ''OBV_MA'' (PyInt 0)))
          then Some OBV_buyers_lead else Some OBV_sellers_lead)"

section \<open>The dashboard variant, app.py\<close>

text \<open>
  app.py calls the provider once per fetch, adds three indicator families, and scores
  three rules. Its analyzer remembers the last score to announce a buying opportunity.
\<close>

record app_row = candle +
  app_RSI :: pyfloat
  app_MACD :: pyfloat
  app_MACD_Signal :: pyfloat
  app_MA5 :: pyfloat
  app_MA20 :: pyfloat

record app_analyzer =
  app_ticker :: string
  last_signal :: int

datatype app_observation =
    App_RSI_oversold | App_RSI_overbought
  | App_MACD_up | App_MACD_down
  | App_MA_up | App_MA_down

record app_result =
  res_ticker :: string
  res_current_price :: real
  res_signals :: "app_observation list"
  res_signal_strength :: int
  res_df :: "app_row list"
  res_indicators :: app_row

definition app_get_current_price :: "real provider \<Rightarrow> real option" where
  "app_get_current_price prov = (case prov 0 of Raises \<Rightarrow> None | Returns price \<Rightarrow> price)"

type_synonym app_library = "candle list \<Rightarrow> (nat \<Rightarrow> app_row) option"

definition app_with_candle :: "candle \<Rightarrow> app_row \<Rightarrow> app_row" where
  "app_with_candle c r =
     r\<lparr>px_open := px_open c, high := high c, low := low c, close := close c, volume := volume c\<rparr>"

definition app_add_columns :: "candle list \<Rightarrow> (nat \<Rightarrow> app_row) \<Rightarrow> app_row list" where
  "app_add_columns df cols = map (\<lambda>i. app_with_candle (df ! i) (cols i)) [0..<length df]"

definition app_calculate_indicators ::
  "candle list provider \<Rightarrow> app_library \<Rightarrow> app_row list option" where
  "app_calculate_indicators prov lib =
     (case prov 0 of
        Raises \<Rightarrow> None
      | Returns None \<Rightarrow> None
      | Returns (Some df) \<Rightarrow>
          if df = [] then None
          else (case lib df of None \<Rightarrow> None | Some cols \<Rightarrow> Some (app_add_columns df cols)))"

text \<open>Lines 56 to 82 of app.py: the three rule blocks.\<close>

definition app_rule_blocks :: "app_row \<Rightarrow> app_observation list \<times> int" where
  "app_rule_blocks latest =
     (let st = ([], 0);
          st = (if flt (app_RSI latest) (Some 30) then emit App_RSI_oversold 2 st
                else if fgt (app_RSI latest) (Some 70) then emit App_RSI_overbought (- 2) st
                else st);
          st = (if fgt (app_MACD latest) (app_MACD_Signal latest) then emit App_MACD_up 1 st
                else emit App_MACD_down (- 1) st);
          st = (if fgt (app_MA5 latest) (app_MA20 latest) then emit App_MA_up 1 st
                else emit App_MA_down (- 1) st)
      in st)"

text \<open>
  The method returns the result, whether the buying opportunity was announced, and the
  updated analyzer.
\<close>

definition app_analyze_signals ::
  "real provider \<Rightarrow> candle list provider \<Rightarrow> app_library \<Rightarrow> app_analyzer
     \<Rightarrow> app_result option \<times> bool \<times> app_analyzer" where
  "app_analyze_signals price_prov ohlcv_prov lib s =
     (case app_get_current_price price_prov of
        None \<Rightarrow> (None, False, s)
      | Some current_price \<Rightarrow>
          (case app_calculate_indicators ohlcv_prov lib of
             None \<Rightarrow> (None, False, s)
           | Some df \<Rightarrow>
               if length df < 20 then (None, False, s)
               else
                 let latest = last df;
                     st = app_rule_blocks latest;
                     signal_strength = snd st;
                     announced = (signal_strength \<ge> 2 \<and> last_signal s < 2)
                 in (Some \<lparr>res_ticker = app_ticker s, res_current_price = current_price,
                            res_signals = fst st, res_signal_strength = signal_strength,
                            res_df = df, res_indicators = latest\<rparr>,
                     announced,
                     s\<lparr>last_signal := signal_strength\<rparr>)))"

section \<open>get_top_volume_tickers\<close>

text \<open>
  The provider as the ranking sees it: the ticker listing (one call, which may raise),
  the bulk price query, and the daily candle of each ticker.
\<close>

record market =
  listing :: "string list response"
  bulk_prices :: "(string \<times> real) list provider"
  daily :: "string \<Rightarrow> candle list provider"

text \<open>
  \<^verbatim>\<open>xs.sort(key=f, reverse=True)\<close>: CPython reverses the list, sorts it stably in
  ascending order, and reverses the result, so that equal keys keep their order.
\<close>

definition sort_reverse :: "('a \<Rightarrow> real) \<Rightarrow> 'a list \<Rightarrow> 'a list" where
  "sort_reverse f xs = rev (sort_key f (rev xs))"

text \<open>The loop over the tickers: those whose daily candle arrives get an entry.\<close>

fun volume_data :: "(string \<Rightarrow> candle list provider) \<Rightarrow> string list \<Rightarrow> (string \<times> real) list" where
  "volume_data dly [] = []"
| "volume_data dly (tk # rest) =
     (let daily_data = fst (fetch_loop frame_ok 3 (dly tk) 0 0 None)
      in if frame_ok daily_data
         then (tk, volume (last (the daily_data)) * close (last (the daily_data)))
                # volume_data dly rest
         else volume_data dly rest)"

definition ranked :: "market \<Rightarrow> (string \<times> real) list" where
  "ranked m =
     (case listing m of
        Raises \<Rightarrow> []
      | Returns None \<Rightarrow> []
      | Returns (Some tickers) \<Rightarrow>
          (case fst (fetch_loop (\<lambda>markets. markets \<noteq> None) 3 (bulk_prices m) 0 0 None) of
             None \<Rightarrow> []
           | Some markets \<Rightarrow> take 3 (sort_reverse snd (volume_data (daily m) tickers))))"

definition get_top_volume_tickers :: "market \<Rightarrow> string list" where
  "get_top_volume_tickers m = map fst (ranked m)"

section \<open>The rules as independent contributions\<close>

text \<open>
  The rule list of the specification, each rule on its own: the observations it adds
  and its contribution to the score. The aggregator is compared with the sum of
  these. Rule 8 is written on the latest close, which is the value the source reads.
\<close>

type_synonym contribution = "observation list \<times> int"

definition rule_rsi :: "row \<Rightarrow> contribution" where
  "rule_rsi latest =
     (if flt (RSI latest) (Some 30) then ([RSI_oversold], 1)
      else if fgt (RSI latest) (Some 70) then ([RSI_overbought], - 1)
      else ([], 0))"

definition rule_macd :: "row \<Rightarrow> pyfloat \<Rightarrow> contribution" where
  "rule_macd latest prev_hist =
     (if fgt (MACD latest) (MACD_Signal latest)
      then (if fgt (MACD_Hist latest) prev_hist then ([MACD_up_stronger], 1) else ([MACD_up], 0))
      else (if flt (MACD_Hist latest) prev_hist then ([MACD_down_stronger], - 1)
            else ([MACD_down], 0)))"

definition rule_ma :: "row \<Rightarrow> contribution" where
  "rule_ma latest =
     (if fgt (MA5 latest) (MA20 latest) \<and> fgt (MA20 latest) (MA60 latest)
      then ([MA_golden_cross], 1)
      else if flt (MA5 latest) (MA20 latest) \<and> flt (MA20 latest) (MA60 latest)
      then ([MA_dead_cross], - 1)
      else ([], 0))"

definition rule_bollinger :: "row \<Rightarrow> real \<Rightarrow> contribution" where
  "rule_bollinger latest price =
     (if flt (Some price) (BB_Lower latest) then ([BB_lower_break], 1)
      else if fgt (Some price) (BB_Upper latest) then ([BB_upper_break], - 1)
      else ([], 0))"

definition rule_stochastic :: "row \<Rightarrow> contribution" where
  "rule_stochastic latest =
     (if flt (Stoch_K latest) (Some 20) \<and> fgt (Stoch_K latest) (Stoch_D latest)
      then ([Stoch_oversold_rebound], 1)
      else if fgt (Stoch_K latest) (Some 80) \<and> flt (Stoch_K latest) (Stoch_D latest)
      then ([Stoch_overbought_drop], - 1)
      else ([], 0))"

definition rule_dmi :: "row \<Rightarrow> contribution" where
  "rule_dmi latest =
     (if fgt (ADX latest) (Some 25) \<and> fgt (DI_plus latest) (DI_minus latest)
      then ([DMI_strong_up], 1)
      else if fgt (ADX latest) (Some 25) \<and> fgt (DI_minus latest) (DI_plus latest)
      then ([DMI_strong_down], - 1)
      else ([], 0))"

definition rule_obv :: "row \<Rightarrow> pyfloat \<Rightarrow> contribution" where
  "rule_obv latest average =
     (if fgt (OBV latest) average then ([OBV_up], 1)
      else if flt (OBV latest) average then ([OBV_down], - 1)
      else ([], 0))"

definition rule_ichimoku :: "row \<Rightarrow> contribution" where
  "rule_ichimoku latest =
     (if fgt (Some (close latest)) (Ichimoku_SpanA latest)
         \<and> fgt (Some (close latest)) (Ichimoku_SpanB latest)
      then ([Ichimoku_up], 1)
      else if flt (Some (close latest)) (Ichimoku_SpanA latest)
         \<and> flt (Some (close latest)) (Ichimoku_SpanB latest)
      then ([Ichimoku_down], - 1)
      else ([], 0))"

definition rule_roc :: "row \<Rightarrow> contribution" where
  "rule_roc latest =
     (if fgt (ROC latest) (Some 5) then ([ROC_strong_up], 1)
      else if flt (ROC latest) (Some (- 5)) then ([ROC_strong_down], - 1)
      else ([], 0))"

definition rule_channel :: "row \<Rightarrow> real \<Rightarrow> contribution" where
  "rule_channel latest price =
     (if fge (Some price) (Upper_Channel latest) then ([Upper_channel_break], 1)
      else if fle (Some price) (Lower_Channel latest) then ([Lower_channel_break], - 1)
      else ([], 0))"

definition rules :: "row list \<Rightarrow> real \<Rightarrow> contribution list" where
  "rules df price =
     [rule_rsi (last df),
      rule_macd (last df) (MACD_Hist (df ! (length df - 2))),
      rule_ma (last df),
      rule_bollinger (last df) price,
      rule_stochastic (last df),
      rule_dmi (last df),
      rule_obv (last df) (rolling_mean_last 20 (map OBV df)),
      rule_ichimoku (last df),
      rule_roc (last df),
      rule_channel (last df) price]"

type_synonym app_contribution = "app_observation list \<times> int"

definition app_rule_rsi :: "app_row \<Rightarrow> app_contribution" where
  "app_rule_rsi latest =
     (if flt (app_RSI latest) (Some 30) then ([App_RSI_oversold], 2)
      else if fgt (app_RSI latest) (Some 70) then ([App_RSI_overbought], - 2)
      else ([], 0))"

definition app_rule_macd :: "app_row \<Rightarrow> app_contribution" where
  "app_rule_macd latest =
     (if fgt (app_MACD latest) (app_MACD_Signal latest) then ([App_MACD_up], 1)
      else ([App_MACD_down], - 1))"

definition app_rule_ma :: "app_row \<Rightarrow> app_contribution" where
  "app_rule_ma latest =
     (if fgt (app_MA5 latest) (app_MA20 latest) then ([App_MA_up], 1)
      else ([App_MA_down], - 1))"

definition app_rules :: "app_row \<Rightarrow> app_contribution list" where
  "app_rules latest = [app_rule_rsi latest, app_rule_macd latest, app_rule_ma latest]"

text \<open>
  The worked scenario of the specification, on the latest row of a frame and a
  current price: RSI 25; MACD below its signal with the histogram under the previous
  row's; MA5 under MA20 under MA60; the price inside the Bollinger bands; \<open>%K\<close> 15
  over \<open>%D\<close> 10; ADX 30 with \<open>-DI\<close> over \<open>+DI\<close>; OBV under its 20-row average; ROC
  \<open>-6\<close>; the price at the lower bound of a channel whose upper bound is higher. The
  Ichimoku condition is the parameter: it is stated on some price \<open>x\<close>.
\<close>

definition scenario_but_ichimoku :: "row list \<Rightarrow> real \<Rightarrow> bool" where
  "scenario_but_ichimoku df price =
     (let latest = last df in
        RSI latest = Some 25
        \<and> flt (MACD latest) (MACD_Signal latest)
        \<and> flt (MACD_Hist latest) (MACD_Hist (df ! (length df - 2)))
        \<and> flt (MA5 latest) (MA20 latest) \<and> flt (MA20 latest) (MA60 latest)
        \<and> fle (BB_Lower latest) (Some price) \<and> fle (Some price) (BB_Upper latest)
        \<and> Stoch_K latest = Some 15 \<and> Stoch_D latest = Some 10
        \<and> ADX latest = Some 30 \<and> fgt (DI_minus latest) (DI_plus latest)
        \<and> flt (OBV latest) (rolling_mean_last 20 (map OBV df))
        \<and> ROC latest = Some (- 6)
        \<and> Lower_Channel latest = Some price \<and> flt (Some price) (Upper_Channel latest))"

definition below_both_spans :: "row \<Rightarrow> real \<Rightarrow> bool" where
  "below_both_spans latest x =
     (flt (Some x) (Ichimoku_SpanA latest) \<and> flt (Some x) (Ichimoku_SpanB latest))"

section \<open>Registrations and sample data\<close>



definition two_above :: analyzer where
  "two_above = set_price_alert 90 ''above'' (set_price_alert 100 ''above'' (init ''KRW-BTC''))"

definition one_above :: analyzer where
  "one_above = set_price_alert 100 ''above'' (init ''KRW-BTC'')"

text \<open>A sound player that always returns, and one that always raises.\<close>

definition plays :: player where
  "plays k = True"

definition mute :: player where
  "mute k = False"

text \<open>A row whose OHLC prices are all \<open>c\<close>, with volume \<open>v\<close> and no indicator defined.\<close>

definition nan_row :: "real \<Rightarrow> real \<Rightarrow> row" where
  "nan_row c v =
     \<lparr>px_open = c, high = c, low = c, close = c, volume = v,
      RSI = None, MACD = None, MACD_Signal = None, MACD_Hist = None,
      Stoch_K = None, Stoch_D = None, ADX = None, DI_plus = None, DI_minus = None,
      OBV = None, Force_Index = None, Ichimoku_Conversion = None, Ichimoku_Base = None,
      Ichimoku_SpanA = None, Ichimoku_SpanB = None, MA5 = None, MA20 = None, MA60 = None,
      MA120 = None, BB_Middle = None, BB_Upper = None, BB_Lower = None, ROC = None,
      Upper_Channel = None, Lower_Channel = None\<rparr>"

text \<open>An outcome of the provider that the retry loop counts as a failure.\<close>

definition failed :: "('a option \<Rightarrow> bool) \<Rightarrow> 'a response \<Rightarrow> bool" where
  "failed ok r = (case r of Raises \<Rightarrow> True | Returns v \<Rightarrow> \<not> ok v)"

text \<open>
  Sample providers: one that raises, then returns \<^verbatim>\<open>None\<close>, then delivers; one that
  always delivers.
\<close>

definition fail_twice_then :: "'a \<Rightarrow> 'a provider" where
  "fail_twice_then v k = (if k = 0 then Raises else if k = 1 then Returns None else Returns (Some v))"

definition always :: "'a \<Rightarrow> 'a provider" where
  "always v k = Returns (Some v)"

definition never :: "'a provider" where
  "never k = Raises"

text \<open>A candle whose OHLC prices are all \<open>c\<close>, with volume \<open>v\<close>.\<close>

definition flat_candle :: "real \<Rightarrow> real \<Rightarrow> candle" where
  "flat_candle c v = \<lparr>px_open = c, high = c, low = c, close = c, volume = v\<rparr>"

text \<open>A library stage that does not raise and leaves every indicator undefined.\<close>

definition nan_library :: ta_library where
  "nan_library df = Some (\<lambda>i. nan_row 0 0)"

definition app_nan_row :: app_row where
  "app_nan_row =
     \<lparr>px_open = 0, high = 0, low = 0, close = 0, volume = 0,
      app_RSI = None, app_MACD = None, app_MACD_Signal = None, app_MA5 = None, app_MA20 = None\<rparr>"

definition app_nan_library :: app_library where
  "app_nan_library df = Some (\<lambda>i. app_nan_row)"

text \<open>
  Indicator columns of app.py on a frame of 20 flat candles at 50: the RSI over 14
  rows, which is 100 when no close has fallen, and the averages over 5 and 20 rows
  are defined on the latest row; MACD, which needs 26 rows, and its signal line are
  not.
\<close>

definition app_warmup_row :: app_row where
  "app_warmup_row =
     \<lparr>px_open = 0, high = 0, low = 0, close = 0, volume = 0,
      app_RSI = Some 100, app_MACD = None, app_MACD_Signal = None,
      app_MA5 = Some 50, app_MA20 = Some 50\<rparr>"

definition app_warmup_columns :: "nat \<Rightarrow> app_row" where
  "app_warmup_columns i = app_warmup_row"

definition app_warmup_library :: app_library where
  "app_warmup_library df = Some app_warmup_columns"

text \<open>
  A frame of 60 candles and indicator columns that realise the worked scenario at a
  current price of 99. The last candle closes at \<open>c\<close> with its low at 99.
\<close>

definition scenario_row :: row where
  "scenario_row =
     \<lparr>px_open = 0, high = 0, low = 0, close = 0, volume = 0,
      RSI = Some 25, MACD = Some (- 2), MACD_Signal = Some (- 1), MACD_Hist = Some (- 2),
      Stoch_K = Some 15, Stoch_D = Some 10, ADX = Some 30, DI_plus = Some 10,
      DI_minus = Some 20, OBV = Some 5, Force_Index = Some 0,
      Ichimoku_Conversion = Some 102, Ichimoku_Base = Some 103,
      Ichimoku_SpanA = Some 100, Ichimoku_SpanB = Some (201 / 2),
      MA5 = Some 100, MA20 = Some 105, MA60 = Some 110, MA120 = None,
      BB_Middle = Some 105, BB_Upper = Some 115, BB_Lower = Some 95, ROC = Some (- 6),
      Upper_Channel = Some 112, Lower_Channel = Some 99\<rparr>"

definition earlier_row :: row where
  "earlier_row = (nan_row 0 0)\<lparr>MACD_Hist := Some (- 1), OBV := Some 10\<rparr>"

definition scenario_columns :: "nat \<Rightarrow> row" where
  "scenario_columns i = (if i = 59 then scenario_row else earlier_row)"

definition scenario_library :: ta_library where
  "scenario_library df = Some scenario_columns"

definition scenario_candles :: "real \<Rightarrow> candle list" where
  "scenario_candles c =
     replicate 59 (flat_candle 105 10)
       @ [\<lparr>px_open = c, high = c + 1, low = 99, close = c, volume = 10\<rparr>]"

definition scenario_frame :: "real \<Rightarrow> row list" where
  "scenario_frame c = add_columns (scenario_candles c) scenario_columns"

text \<open>
  For one ticker: the frame its daily fetch ends with, and the traded value the loop
  computes from it.
\<close>

definition daily_fetch :: "(string \<Rightarrow> candle list provider) \<Rightarrow> string \<Rightarrow> candle list option" where
  "daily_fetch dly tk = fst (fetch_loop frame_ok 3 (dly tk) 0 0 None)"

definition traded_value :: "(string \<Rightarrow> candle list provider) \<Rightarrow> string \<Rightarrow> real" where
  "traded_value dly tk =
     volume (last (the (daily_fetch dly tk))) * close (last (the (daily_fetch dly tk)))"

text \<open>
  A listing of five tickers. B is delivered on the third attempt, D never; A and C
  trade the same value.
\<close>

definition sample_daily :: "string \<Rightarrow> candle list provider" where
  "sample_daily tk =
     (if tk = ''KRW-A'' then always [flat_candle 10 5]
      else if tk = ''KRW-B'' then fail_twice_then [flat_candle 20 5]
      else if tk = ''KRW-C'' then always [flat_candle 5 10]
      else if tk = ''KRW-D'' then never
      else always [flat_candle 10 3])"

definition sample_market :: market where
  "sample_market =
     \<lparr>listing = Returns (Some [''KRW-A'', ''KRW-B'', ''KRW-C'', ''KRW-D'', ''KRW-E'']),
      bulk_prices = always [],
      daily = sample_daily\<rparr>"

section \<open>Properties of the alert registry\<close>

lemma alert_loop_Cons:
  "alert_loop sound k p (e # d) =
     (if fires p e
      then (if sound k
            then (e # fst (alert_loop sound (Suc k) p d), snd (alert_loop sound (Suc k) p d))
            else ([e], False))
      else alert_loop sound k p d)"
proof (cases e)
  case (Pair t a)
  show ?thesis
    unfolding Pair fires_def by (simp add: Let_def)
qed

lemma alert_loop_prefix:
  "\<exists>n. fst (alert_loop sound k p d) = take n (filter (fires p) d)"
proof (induction d arbitrary: k)
  case Nil
  then show ?case by simp
next
  case (Cons e d)
  show ?case
  proof (cases "fires p e")
    case False
    with Cons[of k] show ?thesis
      by (simp only: alert_loop_Cons if_False filter.simps)
  next
    case f: True
    show ?thesis
    proof (cases "sound k")
      case True
      from Cons[of "Suc k"] obtain n
        where "fst (alert_loop sound (Suc k) p d) = take n (filter (fires p) d)"
        by blast
      with f True have "fst (alert_loop sound k p (e # d)) = take (Suc n) (filter (fires p) (e # d))"
        by (simp add: alert_loop_Cons del: alert_loop.simps)
      then show ?thesis by blast
    next
      case False
      with f have "fst (alert_loop sound k p (e # d)) = take (Suc 0) (filter (fires p) (e # d))"
        by (simp add: alert_loop_Cons del: alert_loop.simps)
      then show ?thesis by blast
    qed
  qed
qed

lemma alert_loop_complete:
  "snd (alert_loop sound k p d) \<Longrightarrow> fst (alert_loop sound k p d) = filter (fires p) d"
proof (induction d arbitrary: k)
  case Nil
  then show ?case by simp
next
  case (Cons e d)
  then show ?case
    by (simp add: alert_loop_Cons del: alert_loop.simps split: if_splits)
qed


lemma alert_loop_left_after_print:
  "\<not> snd (alert_loop sound k p d) \<Longrightarrow> fst (alert_loop sound k p d) \<noteq> []"
proof (induction d arbitrary: k)
  case Nil
  then show ?case by simp
next
  case (Cons e d)
  then show ?case
    by (simp add: alert_loop_Cons del: alert_loop.simps split: if_splits)
qed

lemma alert_loop_printed_fire:
  "e \<in> set (fst (alert_loop sound k p d)) \<Longrightarrow> e \<in> set d \<and> fires p e"
proof -
  assume e: "e \<in> set (fst (alert_loop sound k p d))"
  from alert_loop_prefix[of sound k p d] obtain n
    where "fst (alert_loop sound k p d) = take n (filter (fires p) d)"
    by blast
  with e have "e \<in> set (filter (fires p) d)"
    by (metis in_set_takeD)
  then show ?thesis by simp
qed

lemma remove_alerts_ok:
  "set ks \<subseteq> set (dict_keys d) \<Longrightarrow> distinct ks \<Longrightarrow>
   remove_alerts ks d = Inr (filter (\<lambda>e. fst e \<notin> set ks) d)"
proof (induction ks arbitrary: d)
  case Nil
  then show ?case by simp
next
  case (Cons k ks)
  let ?d' = "filter (\<lambda>(k', v'). k' \<noteq> k) d"
  from Cons.prems have del: "dict_del k d = Inr ?d'"
    by (simp add: dict_del_def)
  have "set ks \<subseteq> set (dict_keys ?d')"
  proof
    fix x assume x: "x \<in> set ks"
    with Cons.prems have "x \<noteq> k" and "x \<in> fst ` set d"
      by (auto simp: dict_keys_def)
    then obtain v where "(x, v) \<in> set d" by auto
    with \<open>x \<noteq> k\<close> have "(x, v) \<in> set ?d'" by simp
    then have "fst (x, v) \<in> fst ` set ?d'" by (rule imageI)
    then show "x \<in> set (dict_keys ?d')" by (simp add: dict_keys_def)
  qed
  with Cons have "remove_alerts ks ?d' = Inr (filter (\<lambda>e. fst e \<notin> set ks) ?d')"
    by simp
  moreover have "filter (\<lambda>e. fst e \<notin> set ks) ?d' = filter (\<lambda>e. fst e \<notin> set (k # ks)) d"
    by (induction d) auto
  ultimately show ?case using del by simp
qed

lemma distinct_fired_keys:
  "distinct (dict_keys d) \<Longrightarrow> distinct (map fst (filter P d))"
  by (simp add: dict_keys_def distinct_map_filter)

lemma remove_fired:
  assumes "distinct (dict_keys d)"
  shows "remove_alerts (map fst (filter (fires p) d)) d = Inr (filter (\<lambda>e. \<not> fires p e) d)"
proof -
  let ?ks = "map fst (filter (fires p) d)"
  have sub: "set ?ks \<subseteq> set (dict_keys d)"
    by (auto simp: dict_keys_def)
  have dks: "distinct ?ks"
    using assms by (rule distinct_fired_keys)
  have "filter (\<lambda>e. fst e \<notin> set ?ks) d = filter (\<lambda>e. \<not> fires p e) d"
  proof (rule filter_cong[OF refl])
    fix e assume e: "e \<in> set d"
    show "(fst e \<notin> set ?ks) = (\<not> fires p e)"
    proof
      assume "fst e \<notin> set ?ks"
      with e show "\<not> fires p e" by force
    next
      assume nf: "\<not> fires p e"
      show "fst e \<notin> set ?ks"
      proof
        assume "fst e \<in> set ?ks"
        then obtain e' where e': "e' \<in> set d" "fires p e'" "fst e' = fst e" by auto
        from assms e e'(1,3) have "e' = e"
          by (metis dict_keys_def eq_key_imp_eq_value prod.collapse)
        with nf e'(2) show False by simp
      qed
    qed
  qed
  with remove_alerts_ok[OF sub dks] show ?thesis
    by simp
qed

lemma check_price_alerts_played:
  assumes "distinct (dict_keys (price_alerts s))"
    and "snd (alert_loop sound 0 p (price_alerts s))"
  shows "check_price_alerts sound p s =
           (filter (fires p) (price_alerts s), None,
            s\<lparr>price_alerts := filter (\<lambda>e. \<not> fires p e) (price_alerts s)\<rparr>)"
  using assms(2) alert_loop_complete[OF assms(2)] remove_fired[OF assms(1), of p]
  by (simp add: check_price_alerts_def Let_def)

lemma check_price_alerts_raised:
  assumes "\<not> snd (alert_loop sound 0 p (price_alerts s))"
  shows "check_price_alerts sound p s
           = (fst (alert_loop sound 0 p (price_alerts s)), Some SoundError, s)"
  using assms by (simp add: check_price_alerts_def Let_def)

lemma check_price_alerts_shown:
  "shown (check_price_alerts sound p s) = fst (alert_loop sound 0 p (price_alerts s))"
  by (simp add: check_price_alerts_def shown_def Let_def split: sum.splits)

lemma dict_keys_overwrite:
  "dict_keys (map (\<lambda>(k', v'). if k' = k then (k', v) else (k', v')) d) = dict_keys d"
  by (induction d) (auto simp: dict_keys_def)

lemma distinct_keys_dict_set:
  assumes "distinct (dict_keys d)"
  shows "distinct (dict_keys (dict_set k v d))"
proof (cases "k \<in> set (dict_keys d)")
  case True
  then have "dict_keys (dict_set k v d) = dict_keys d"
    by (simp only: dict_set_def if_True dict_keys_overwrite)
  with assms show ?thesis by simp
next
  case False
  then have "dict_keys (dict_set k v d) = dict_keys d @ [k]"
    by (simp add: dict_set_def dict_keys_def)
  with assms False show ?thesis by simp
qed

lemma distinct_keys_init: "distinct (dict_keys (price_alerts (init tk)))"
  by (simp add: init_def dict_keys_def)

lemma distinct_keys_set_price_alert:
  "distinct (dict_keys (price_alerts s)) \<Longrightarrow>
   distinct (dict_keys (price_alerts (set_price_alert t a s)))"
  by (simp add: set_price_alert_def distinct_keys_dict_set)

lemma distinct_keys_check:
  assumes "distinct (dict_keys (price_alerts s))"
  shows "distinct (dict_keys (price_alerts (after (check_price_alerts sound p s))))"
proof (cases "snd (alert_loop sound 0 p (price_alerts s))")
  case True
  from check_price_alerts_played[OF assms True] assms show ?thesis
    by (simp add: after_def dict_keys_def distinct_map_filter)
next
  case False
  from check_price_alerts_raised[OF False] assms show ?thesis
    by (simp add: after_def)
qed





lemma one_above_alerts: "price_alerts one_above = [(100, ''above'')]"
  by (simp add: one_above_def set_price_alert_def init_def dict_set_def dict_keys_def)




text \<open>
  Claim C9, as stated, fails when another entry fires: with alerts above 100 and
  above 90 registered, a check at exactly 100 fires the alert at 90 and removes it,
  so the call does fire something and does change the registry.
\<close>

theorem alert_equal_price_counterexample:
  "(100, ''above'') \<in> set (price_alerts two_above)
   \<and> check_price_alerts plays 100 two_above
       = ([(90, ''above'')], None, two_above\<lparr>price_alerts := [(100, ''above'')]\<rparr>)
   \<and> two_above\<lparr>price_alerts := [(100, ''above'')]\<rparr> \<noteq> two_above"
proof -
  have regs: "price_alerts two_above = [(100, ''above''), (90, ''above'')]"
    by (simp add: two_above_def set_price_alert_def init_def dict_set_def dict_keys_def)
  have run: "check_price_alerts plays 100 two_above
       = ([(90, ''above'')], None, two_above\<lparr>price_alerts := [(100, ''above'')]\<rparr>)"
    by (simp add: check_price_alerts_def regs plays_def dict_del_def dict_keys_def)
  have "price_alerts (two_above\<lparr>price_alerts := [(100, ''above'')]\<rparr>) \<noteq> price_alerts two_above"
    by (simp add: regs)
  then have "two_above\<lparr>price_alerts := [(100, ''above'')]\<rparr> \<noteq> two_above"
    by metis
  with run regs show ?thesis by simp
qed

text \<open>
  Claim C9, amended. A check at a price equal to an entry's target does not fire that
  entry, whatever its direction and whatever the sound player does, and the entry is
  still registered afterwards. A call that raises nothing removes exactly the other
  entries that fire at that price, and a call that raises leaves the analyzer as it
  was; when nothing fires, the analyzer is unchanged.
\<close>

theorem alert_equal_price_keeps_entry:
  assumes "distinct (dict_keys (price_alerts s))"
    and "(target_price, direction) \<in> set (price_alerts s)"
  shows "\<exists>fired exc s'.
           check_price_alerts sound target_price s = (fired, exc, s')
           \<and> target_price \<notin> fst ` set fired
           \<and> (target_price, direction) \<in> set (price_alerts s')
           \<and> (exc = None \<longrightarrow> price_alerts s' = filter (\<lambda>e. e \<notin> set fired) (price_alerts s))
           \<and> (exc \<noteq> None \<longrightarrow> s' = s)
           \<and> (fired = [] \<longrightarrow> s' = s \<and> exc = None)"
proof -
  let ?p = target_price
  let ?loop = "alert_loop sound 0 ?p (price_alerts s)"
  have nf: "\<not> fires ?p (?p, a)" for a
    by (simp add: fires_def)
  have c1: "?p \<notin> fst ` set (fst ?loop)"
  proof
    assume "?p \<in> fst ` set (fst ?loop)"
    then obtain e where "e \<in> set (fst ?loop)" "fst e = ?p" by auto
    with alert_loop_printed_fire[of e sound 0 ?p "price_alerts s"] have "fires ?p (?p, snd e)"
      by (metis prod.collapse)
    with nf show False by simp
  qed
  show ?thesis
  proof (cases "snd ?loop")
    case True
    let ?fired = "filter (fires ?p) (price_alerts s)"
    let ?rest = "filter (\<lambda>e. \<not> fires ?p e) (price_alerts s)"
    let ?s' = "s\<lparr>price_alerts := ?rest\<rparr>"
    note run = check_price_alerts_played[OF assms(1) True]
    have pr: "fst ?loop = ?fired"
      using True by (rule alert_loop_complete)
    have a: "?p \<notin> fst ` set ?fired"
      using c1 pr by simp
    have b: "(?p, direction) \<in> set (price_alerts ?s')"
      using assms(2) nf by simp
    have c: "price_alerts ?s' = filter (\<lambda>e. e \<notin> set ?fired) (price_alerts s)"
      by (auto intro: filter_cong)
    have d: "?fired = [] \<longrightarrow> ?s' = s"
    proof
      assume "?fired = []"
      then have "\<forall>e \<in> set (price_alerts s). \<not> fires ?p e"
        by (simp add: filter_empty_conv)
      then have "?rest = price_alerts s"
        by (simp add: filter_id_conv)
      then show "?s' = s" by simp
    qed
    show ?thesis
      using run a b c d by blast
  next
    case False
    note run = check_price_alerts_raised[OF False]
    have ne: "fst ?loop \<noteq> []"
      using False by (rule alert_loop_left_after_print)
    show ?thesis
      using run c1 assms(2) ne by auto
  qed
qed

theorem alert_equal_price_keeps_entry_witness:
  "distinct (dict_keys (price_alerts one_above))
   \<and> (100, ''above'') \<in> set (price_alerts one_above)
   \<and> check_price_alerts mute 100 one_above = ([], None, one_above)"
proof -
  have h1: "distinct (dict_keys (price_alerts one_above))"
    by (simp add: one_above_alerts dict_keys_def)
  have h2: "(100, ''above'') \<in> set (price_alerts one_above)"
    by (simp add: one_above_alerts)
  from alert_equal_price_keeps_entry[OF h1 h2, of mute]
  obtain fired exc s' where r: "check_price_alerts mute 100 one_above = (fired, exc, s')"
    and same: "fired = [] \<longrightarrow> s' = one_above \<and> exc = None"
    by blast
  from r have "fired = shown (check_price_alerts mute 100 one_above)"
    by (simp add: shown_def)
  then have "fired = []"
    by (simp add: check_price_alerts_shown one_above_alerts)
  with r same h1 h2 show ?thesis by simp
qed

section \<open>Properties of the volume check\<close>

lemma check_volume_surge_long:
  "2 \<le> length rows \<Longrightarrow>
   check_volume_surge sound (Some rows) s =
     (let surge =
        (case last_volume s of
           None \<Rightarrow> None
         | Some lv \<Rightarrow>
             if np_gt (np_div (volume (last rows)) lv) (volume_alert_threshold s)
             then Some (np_div (volume (last rows)) lv) else None)
      in if surge \<noteq> None \<and> \<not> sound 0 then (surge, Some SoundError, s)
         else (surge, None, s\<lparr>last_volume := Some (volume (last rows))\<rparr>))"
  by (simp add: check_volume_surge_def Let_def split: option.splits)

lemma shown_check_volume_surge:
  "2 \<le> length rows \<Longrightarrow>
   shown (check_volume_surge sound (Some rows) s) =
     (case last_volume s of
        None \<Rightarrow> None
      | Some lv \<Rightarrow>
          if np_gt (np_div (volume (last rows)) lv) (volume_alert_threshold s)
          then Some (np_div (volume (last rows)) lv) else None)"
  by (simp add: check_volume_surge_long shown_def Let_def)

lemma stored_check_volume_surge:
  assumes "2 \<le> length rows"
    and "shown (check_volume_surge sound (Some rows) s) = None \<or> sound 0"
  shows "raised (check_volume_surge sound (Some rows) s) = None
         \<and> after (check_volume_surge sound (Some rows) s)
             = s\<lparr>last_volume := Some (volume (last rows))\<rparr>"
  using assms(2) unfolding shown_check_volume_surge[OF assms(1)]
  by (auto simp: check_volume_surge_long[OF assms(1)] raised_def after_def Let_def)

lemma np_gt_div_nonzero: "lv \<noteq> 0 \<Longrightarrow> np_gt (np_div v lv) t = (v / lv > t)"
  by (simp add: np_div_def)

text \<open>
  Claim C5, as stated, fails in two ways. On a series of one candle the method
  returns at its first line and the stored volume stays as it was. And on a surge the
  sound is played before the volume is stored: when the player raises, the surge has
  been printed and the stored volume stays as it was.
\<close>

theorem volume_surge_not_stored_counterexample:
  "check_volume_surge plays (Some [nan_row 50 100]) (init ''KRW-BTC'')
     = (None, None, init ''KRW-BTC'')
   \<and> last_volume (after (check_volume_surge plays (Some [nan_row 50 100]) (init ''KRW-BTC'')))
       \<noteq> Some (volume (last [nan_row 50 100]))
   \<and> check_volume_surge mute (Some [nan_row 50 100, nan_row 50 250])
        ((init ''KRW-BTC'')\<lparr>last_volume := Some 100\<rparr>)
       = (Some (Finite (5 / 2)), Some SoundError, (init ''KRW-BTC'')\<lparr>last_volume := Some 100\<rparr>)"
proof -
  have a: "check_volume_surge plays (Some [nan_row 50 100]) (init ''KRW-BTC'')
     = (None, None, init ''KRW-BTC'')"
    by (simp add: check_volume_surge_def)
  have b: "last_volume (init ''KRW-BTC'') \<noteq> Some (volume (last [nan_row 50 100]))"
    by (simp add: init_def)
  have c: "check_volume_surge mute (Some [nan_row 50 100, nan_row 50 250])
        ((init ''KRW-BTC'')\<lparr>last_volume := Some 100\<rparr>)
       = (Some (Finite (5 / 2)), Some SoundError, (init ''KRW-BTC'')\<lparr>last_volume := Some 100\<rparr>)"
    by (simp add: check_volume_surge_long nan_row_def init_def np_div_def mute_def)
  from a b c show ?thesis
    by (simp add: after_def)
qed

text \<open>
  Claim C5, amended. On a series of at least two candles the call signals exactly
  when a previous volume is stored and the quotient of the latest by the previous
  volume exceeds the threshold, which for a nonzero previous volume is the strict
  comparison of the real quotient; with no previous volume it never signals. When it
  does not signal, or signals and the sound player returns, it raises nothing and
  stores the latest candle's volume, changing nothing else. On an absent series or
  one of fewer than two candles the call does nothing. A new analyzer has threshold
  2 and no previous volume.
\<close>

theorem volume_surge_updates_after_check:
  "(2 \<le> length rows \<longrightarrow>
      ((shown (check_volume_surge sound (Some rows) s) \<noteq> None)
           = (\<exists>lv. last_volume s = Some lv
                \<and> np_gt (np_div (volume (last rows)) lv) (volume_alert_threshold s)))
      \<and> (\<forall>lv. last_volume s = Some lv \<and> lv \<noteq> 0 \<longrightarrow>
            (shown (check_volume_surge sound (Some rows) s) \<noteq> None)
              = (volume (last rows) / lv > volume_alert_threshold s))
      \<and> (last_volume s = None \<longrightarrow> shown (check_volume_surge sound (Some rows) s) = None)
      \<and> (shown (check_volume_surge sound (Some rows) s) = None \<or> sound 0 \<longrightarrow>
            raised (check_volume_surge sound (Some rows) s) = None
            \<and> after (check_volume_surge sound (Some rows) s)
                = s\<lparr>last_volume := Some (volume (last rows))\<rparr>))
   \<and> (length rows < 2 \<longrightarrow> check_volume_surge sound (Some rows) s = (None, None, s))
   \<and> check_volume_surge sound None s = (None, None, s)
   \<and> volume_alert_threshold (init tk) = 2
   \<and> last_volume (init tk) = None"
proof -
  let ?r = "check_volume_surge sound (Some rows) s"
  have long: "2 \<le> length rows \<longrightarrow>
      ((shown ?r \<noteq> None)
           = (\<exists>lv. last_volume s = Some lv
                \<and> np_gt (np_div (volume (last rows)) lv) (volume_alert_threshold s)))
      \<and> (\<forall>lv. last_volume s = Some lv \<and> lv \<noteq> 0 \<longrightarrow>
            (shown ?r \<noteq> None) = (volume (last rows) / lv > volume_alert_threshold s))
      \<and> (last_volume s = None \<longrightarrow> shown ?r = None)
      \<and> (shown ?r = None \<or> sound 0 \<longrightarrow>
            raised ?r = None \<and> after ?r = s\<lparr>last_volume := Some (volume (last rows))\<rparr>)"
  proof
    assume len: "2 \<le> length rows"
    note eq = shown_check_volume_surge[OF len, of sound s]
    have b: "(shown ?r \<noteq> None)
           = (\<exists>lv. last_volume s = Some lv
                \<and> np_gt (np_div (volume (last rows)) lv) (volume_alert_threshold s))"
      by (cases "last_volume s") (simp_all add: eq)
    have c: "\<forall>lv. last_volume s = Some lv \<and> lv \<noteq> 0 \<longrightarrow>
            (shown ?r \<noteq> None) = (volume (last rows) / lv > volume_alert_threshold s)"
      by (simp add: eq np_gt_div_nonzero)
    have d: "last_volume s = None \<longrightarrow> shown ?r = None"
      by (simp add: eq)
    have a: "shown ?r = None \<or> sound 0 \<longrightarrow>
            raised ?r = None \<and> after ?r = s\<lparr>last_volume := Some (volume (last rows))\<rparr>"
      using stored_check_volume_surge[OF len] by blast
    show "((shown ?r \<noteq> None)
           = (\<exists>lv. last_volume s = Some lv
                \<and> np_gt (np_div (volume (last rows)) lv) (volume_alert_threshold s)))
      \<and> (\<forall>lv. last_volume s = Some lv \<and> lv \<noteq> 0 \<longrightarrow>
            (shown ?r \<noteq> None) = (volume (last rows) / lv > volume_alert_threshold s))
      \<and> (last_volume s = None \<longrightarrow> shown ?r = None)
      \<and> (shown ?r = None \<or> sound 0 \<longrightarrow>
            raised ?r = None \<and> after ?r = s\<lparr>last_volume := Some (volume (last rows))\<rparr>)"
      by (rule conjI[OF b conjI[OF c conjI[OF d a]]])
  qed
  have short: "length rows < 2 \<longrightarrow> check_volume_surge sound (Some rows) s = (None, None, s)"
    by (simp add: check_volume_surge_def)
  have none: "check_volume_surge sound None s = (None, None, s)"
    by (simp add: check_volume_surge_def)
  have ini: "volume_alert_threshold (init tk) = 2 \<and> last_volume (init tk) = None"
    by (simp add: init_def)
  show ?thesis
    by (rule conjI[OF long conjI[OF short conjI[OF none ini]]])
qed

text \<open>
  The scenario of the specification: volumes 100 and then 250 at threshold 2, with a
  player that returns. The first call stays silent and stores 100; the second
  signals, since 250 / 100 exceeds 2, and stores 250.
\<close>

theorem volume_surge_updates_after_check_witness:
  "2 \<le> length [nan_row 50 90, nan_row 50 100]
   \<and> last_volume (init ''KRW-BTC'') = None
   \<and> shown (check_volume_surge mute (Some [nan_row 50 90, nan_row 50 100]) (init ''KRW-BTC''))
       = None
   \<and> after (check_volume_surge mute (Some [nan_row 50 90, nan_row 50 100]) (init ''KRW-BTC''))
       = (init ''KRW-BTC'')\<lparr>last_volume := Some 100\<rparr>
   \<and> last_volume ((init ''KRW-BTC'')\<lparr>last_volume := Some 100\<rparr>) = Some 100 \<and> (100::real) \<noteq> 0
   \<and> shown (check_volume_surge plays (Some [nan_row 50 100, nan_row 50 250])
            ((init ''KRW-BTC'')\<lparr>last_volume := Some 100\<rparr>)) \<noteq> None
   \<and> plays 0
   \<and> after (check_volume_surge plays (Some [nan_row 50 100, nan_row 50 250])
            ((init ''KRW-BTC'')\<lparr>last_volume := Some 100\<rparr>))
       = (init ''KRW-BTC'')\<lparr>last_volume := Some 250\<rparr>
   \<and> length [nan_row 50 100] < 2
   \<and> check_volume_surge plays (Some [nan_row 50 100]) (init ''KRW-BTC'')
       = (None, None, init ''KRW-BTC'')"
proof -
  let ?s0 = "init ''KRW-BTC''"
  let ?s1 = "?s0\<lparr>last_volume := Some 100\<rparr>"
  let ?rows1 = "[nan_row 50 90, nan_row 50 100]"
  let ?rows2 = "[nan_row 50 100, nan_row 50 250]"
  have l: "2 \<le> length ?rows1" and l2: "2 \<le> length ?rows2" and l3: "length [nan_row 50 100] < 2"
    by simp_all
  have n: "last_volume ?s0 = None" by (simp add: init_def)
  have p: "last_volume ?s1 = Some 100" by simp
  have t: "volume_alert_threshold ?s1 = 2" by (simp add: init_def)
  have p0: "plays 0" by (simp add: plays_def)
  note i1 = volume_surge_updates_after_check[of ?rows1 mute ?s0 "''KRW-BTC''", THEN conjunct1]
  from i1 l n have first: "shown (check_volume_surge mute (Some ?rows1) ?s0) = None"
    by blast
  with i1 l have "after (check_volume_surge mute (Some ?rows1) ?s0)
                    = ?s0\<lparr>last_volume := Some (volume (last ?rows1))\<rparr>"
    by blast
  then have st: "after (check_volume_surge mute (Some ?rows1) ?s0) = ?s1"
    by (simp add: nan_row_def)
  note i2 = volume_surge_updates_after_check[of ?rows2 plays ?s1 "''KRW-BTC''", THEN conjunct1]
  from i2 l2 have "\<forall>lv. last_volume ?s1 = Some lv \<and> lv \<noteq> 0 \<longrightarrow>
            (shown (check_volume_surge plays (Some ?rows2) ?s1) \<noteq> None)
              = (volume (last ?rows2) / lv > volume_alert_threshold ?s1)"
    by blast
  then have "last_volume ?s1 = Some 100 \<and> (100::real) \<noteq> 0 \<longrightarrow>
            (shown (check_volume_surge plays (Some ?rows2) ?s1) \<noteq> None)
              = (volume (last ?rows2) / 100 > volume_alert_threshold ?s1)"
    by (rule spec)
  with p have "(shown (check_volume_surge plays (Some ?rows2) ?s1) \<noteq> None)
          = (volume (last ?rows2) / 100 > volume_alert_threshold ?s1)"
    by simp
  then have second: "shown (check_volume_surge plays (Some ?rows2) ?s1) \<noteq> None"
    by (simp add: t nan_row_def)
  from i2 l2 p0 have "after (check_volume_surge plays (Some ?rows2) ?s1)
                    = ?s1\<lparr>last_volume := Some (volume (last ?rows2))\<rparr>"
    by blast
  then have st2: "after (check_volume_surge plays (Some ?rows2) ?s1)
                    = ?s0\<lparr>last_volume := Some 250\<rparr>"
    by (simp add: nan_row_def)
  from volume_surge_updates_after_check[of "[nan_row 50 100]" plays ?s0 "''KRW-BTC''"] l3
  have short: "check_volume_surge plays (Some [nan_row 50 100]) ?s0 = (None, None, ?s0)"
    by simp
  from l n first st p second p0 st2 l3 short show ?thesis
    by simp
qed

text \<open>
  Claim C10. The quotient is taken whenever a previous volume is stored, with no test
  of the divisor. A stored volume of zero is reached through the method itself, by a
  call on a series whose latest candle has volume zero: with a threshold that is not
  negative that call signals nothing, so it stores the zero whatever the sound
  player does. From such a state the next call on a series of at least two candles
  divides by zero: the quotient is not a finite number, and for a positive latest
  volume the call signals a surge with an infinite ratio.
\<close>

theorem volume_surge_divides_by_zero:
  assumes "2 \<le> length rows0" and "volume (last rows0) = 0" and "2 \<le> length rows"
    and "sound0 0 \<or> 0 \<le> volume_alert_threshold s0"
  shows "last_volume (after (check_volume_surge sound0 (Some rows0) s0)) = Some 0
         \<and> (\<forall>x. np_div (volume (last rows)) 0 \<noteq> Finite x)
         \<and> shown (check_volume_surge sound (Some rows)
                    (after (check_volume_surge sound0 (Some rows0) s0)))
             = (if volume (last rows) > 0 then Some PosInf else None)"
proof -
  let ?s = "after (check_volume_surge sound0 (Some rows0) s0)"
  have quiet: "shown (check_volume_surge sound0 (Some rows0) s0) = None"
    if "0 \<le> volume_alert_threshold s0"
    using that assms(2)
    by (simp add: shown_check_volume_surge[OF assms(1)] np_div_def split: option.splits)
  with assms(4) have "shown (check_volume_surge sound0 (Some rows0) s0) = None \<or> sound0 0"
    by blast
  from stored_check_volume_surge[OF assms(1) this] assms(2)
  have st: "?s = s0\<lparr>last_volume := Some 0\<rparr>"
    by simp
  have nf: "\<forall>x. np_div (volume (last rows)) 0 \<noteq> Finite x"
    by (simp add: np_div_def)
  have "shown (check_volume_surge sound (Some rows) ?s)
          = (if volume (last rows) > 0 then Some PosInf else None)"
    by (simp add: st shown_check_volume_surge[OF assms(3)] np_div_def)
  with st nf show ?thesis by simp
qed

theorem volume_surge_divides_by_zero_witness:
  "2 \<le> length [nan_row 50 0, nan_row 50 0]
   \<and> volume (last [nan_row 50 0, nan_row 50 0]) = 0
   \<and> 2 \<le> length [nan_row 50 0, nan_row 50 100]
   \<and> 0 \<le> volume_alert_threshold (init ''KRW-BTC'')
   \<and> last_volume (after (check_volume_surge mute (Some [nan_row 50 0, nan_row 50 0])
                            (init ''KRW-BTC''))) = Some 0
   \<and> shown (check_volume_surge mute (Some [nan_row 50 0, nan_row 50 100])
            (after (check_volume_surge mute (Some [nan_row 50 0, nan_row 50 0])
                      (init ''KRW-BTC''))))
       = Some PosInf"
proof -
  have h1: "2 \<le> length [nan_row 50 0, nan_row 50 0]" by simp
  have h2: "volume (last [nan_row 50 0, nan_row 50 0]) = 0" by (simp add: nan_row_def)
  have h3: "2 \<le> length [nan_row 50 0, nan_row 50 100]" by simp
  have t: "0 \<le> volume_alert_threshold (init ''KRW-BTC'')" by (simp add: init_def)
  then have h4: "mute 0 \<or> 0 \<le> volume_alert_threshold (init ''KRW-BTC'')" by blast
  from volume_surge_divides_by_zero[where ?rows0.0="[nan_row 50 0, nan_row 50 0]"
      and rows="[nan_row 50 0, nan_row 50 100]" and ?sound0.0=mute and ?s0.0="init ''KRW-BTC''"
      and sound=mute, OF h1 h2 h3 h4] h1 h2 h3 t show ?thesis
    by (simp add: nan_row_def)
qed

section \<open>Properties of the retry loop\<close>

lemma fetch_loop_broke_or_exhausted:
  assumes "\<not> ok x" and "fetch_loop ok n prov k sl x = (r, k', sl')"
  shows "(ok r \<longrightarrow> k < k' \<and> k' \<le> k + n \<and> prov (k' - 1) = Returns r
                  \<and> sl' + k + 1 = sl + k'
                  \<and> (\<forall>j. k \<le> j \<and> j < k' - 1 \<longrightarrow> failed ok (prov j)))
       \<and> (\<not> ok r \<longrightarrow> k' = k + n \<and> sl' = sl + n
                  \<and> (\<forall>j. k \<le> j \<and> j < k + n \<longrightarrow> failed ok (prov j)))"
  using assms
proof (induction n arbitrary: k sl x)
  case 0
  then show ?case by auto
next
  case (Suc n)
  show ?case
  proof (cases "prov k")
    case Raises
    with Suc.prems have rec: "fetch_loop ok n prov (Suc k) (Suc sl) x = (r, k', sl')"
      by simp
    have fk: "failed ok (prov k)"
      by (simp add: Raises failed_def)
    note ih = Suc.IH[OF Suc.prems(1) rec]
    have all: "(\<forall>j. Suc k \<le> j \<and> j < m \<longrightarrow> failed ok (prov j))
               \<Longrightarrow> (\<forall>j. k \<le> j \<and> j < m \<longrightarrow> failed ok (prov j))" for m
      using fk by (metis Suc_leI le_neq_implies_less)
    from ih all show ?thesis
      by (auto simp del: fetch_loop.simps)
  next
    case (Returns v)
    show ?thesis
    proof (cases "ok v")
      case True
      with Returns Suc.prems have "r = v" "k' = Suc k" "sl' = sl"
        by simp_all
      with True Returns show ?thesis by auto
    next
      case False
      with Returns Suc.prems have rec: "fetch_loop ok n prov (Suc k) (Suc sl) v = (r, k', sl')"
        by simp
      have fk: "failed ok (prov k)"
        by (simp add: Returns failed_def False)
      note ih = Suc.IH[OF False rec]
      have all: "(\<forall>j. Suc k \<le> j \<and> j < m \<longrightarrow> failed ok (prov j))
                 \<Longrightarrow> (\<forall>j. k \<le> j \<and> j < m \<longrightarrow> failed ok (prov j))" for m
        using fk by (metis Suc_leI le_neq_implies_less)
      from ih all show ?thesis
        by (auto simp del: fetch_loop.simps)
    qed
  qed
qed

lemma fetch_loop_failed_step:
  assumes "failed ok (prov k)"
  shows "\<exists>x'. fetch_loop ok (Suc n) prov k sl x = fetch_loop ok n prov (Suc k) (Suc sl) x'
              \<and> (\<not> ok x \<longrightarrow> \<not> ok x')"
proof (cases "prov k")
  case Raises
  then have "fetch_loop ok (Suc n) prov k sl x = fetch_loop ok n prov (Suc k) (Suc sl) x"
    by simp
  then show ?thesis by blast
next
  case (Returns v)
  with assms have nv: "\<not> ok v" by (simp add: failed_def)
  with Returns have "fetch_loop ok (Suc n) prov k sl x = fetch_loop ok n prov (Suc k) (Suc sl) v"
    by simp
  with nv show ?thesis by blast
qed

lemma fetch_loop_good_step:
  "prov k = Returns r \<Longrightarrow> ok r \<Longrightarrow> fetch_loop ok (Suc n) prov k sl x = (r, Suc k, sl)"
  by simp

lemma fetch_loop_third_attempt:
  assumes "failed ok (prov 0)" and "failed ok (prov 1)" and "prov 2 = Returns r" and "ok r"
  shows "fetch_loop ok 3 prov 0 0 x = (r, 3, 2)"
proof -
  have three: "(3::nat) = Suc (Suc (Suc 0))" and two: "(2::nat) = Suc (Suc 0)"
    by simp_all
  from fetch_loop_failed_step[where ok=ok and prov=prov and k="0" and n="Suc (Suc 0)" and sl="0" and x=x, OF assms(1)]
  obtain x1 where s1: "fetch_loop ok (Suc (Suc (Suc 0))) prov 0 0 x
                        = fetch_loop ok (Suc (Suc 0)) prov (Suc 0) (Suc 0) x1"
    by blast
  from assms(2) have "failed ok (prov (Suc 0))" by simp
  from fetch_loop_failed_step[where ok=ok and prov=prov and k="Suc 0" and n="Suc 0" and sl="Suc 0" and x=x1, OF this]
  obtain x2 where s2: "fetch_loop ok (Suc (Suc 0)) prov (Suc 0) (Suc 0) x1
                        = fetch_loop ok (Suc 0) prov (Suc (Suc 0)) (Suc (Suc 0)) x2"
    by blast
  from assms(3) have "prov (Suc (Suc 0)) = Returns r" by (simp add: two)
  from fetch_loop_good_step[where prov=prov and k="Suc (Suc 0)" and ok=ok and n=0 and sl="Suc (Suc 0)" and x=x2, OF this assms(4)]
  have s3: "fetch_loop ok (Suc 0) prov (Suc (Suc 0)) (Suc (Suc 0)) x2
             = (r, Suc (Suc (Suc 0)), Suc (Suc 0))" .
  show ?thesis
    unfolding three two using s1 s2 s3 by (simp only:)
qed

lemma fetch_loop_all_failed:
  assumes "\<not> ok x" and "\<forall>j<3. failed ok (prov j)"
  shows "\<not> ok (fst (fetch_loop ok 3 prov 0 0 x)) \<and> snd (fetch_loop ok 3 prov 0 0 x) = (3, 3)"
proof -
  have three: "(3::nat) = Suc (Suc (Suc 0))"
    by simp
  from assms(2) have f0: "failed ok (prov 0)" and f1: "failed ok (prov (Suc 0))"
    and f2: "failed ok (prov (Suc (Suc 0)))"
    by simp_all
  from fetch_loop_failed_step[where ok=ok and prov=prov and k="0" and n="Suc (Suc 0)" and sl="0" and x=x, OF f0] assms(1)
  obtain x1 where s1: "fetch_loop ok (Suc (Suc (Suc 0))) prov 0 0 x
                        = fetch_loop ok (Suc (Suc 0)) prov (Suc 0) (Suc 0) x1"
    and n1: "\<not> ok x1"
    by blast
  from fetch_loop_failed_step[where ok=ok and prov=prov and k="Suc 0" and n="Suc 0" and sl="Suc 0" and x=x1, OF f1] n1
  obtain x2 where s2: "fetch_loop ok (Suc (Suc 0)) prov (Suc 0) (Suc 0) x1
                        = fetch_loop ok (Suc 0) prov (Suc (Suc 0)) (Suc (Suc 0)) x2"
    and n2: "\<not> ok x2"
    by blast
  from fetch_loop_failed_step[where ok=ok and prov=prov and k="Suc (Suc 0)" and n="0" and sl="Suc (Suc 0)" and x=x2, OF f2] n2
  obtain x3 where s3: "fetch_loop ok (Suc 0) prov (Suc (Suc 0)) (Suc (Suc 0)) x2
                        = fetch_loop ok 0 prov (Suc (Suc (Suc 0))) (Suc (Suc (Suc 0))) x3"
    and n3: "\<not> ok x3"
    by blast
  have "fetch_loop ok 3 prov 0 0 x = (x3, 3, 3)"
    unfolding three using s1 s2 s3 by simp
  with n3 show ?thesis by simp
qed

lemma fetch_loop_summary:
  assumes "\<not> ok None"
  shows "\<exists>r calls sleeps.
           fetch_loop ok 3 prov 0 0 None = (r, calls, sleeps) \<and> calls \<le> 3
           \<and> (ok r \<longrightarrow> 1 \<le> calls \<and> prov (calls - 1) = Returns r \<and> sleeps = calls - 1
                        \<and> (\<forall>j<calls - 1. failed ok (prov j)))
           \<and> (\<not> ok r \<longrightarrow> calls = 3 \<and> sleeps = 3 \<and> (\<forall>j<3. failed ok (prov j)))"
proof -
  obtain r calls sleeps where run: "fetch_loop ok 3 prov 0 0 None = (r, calls, sleeps)"
    by (metis prod_cases3)
  note facts = fetch_loop_broke_or_exhausted[OF assms run]
  have a: "calls \<le> 3"
    using facts by (cases "ok r") auto
  have b: "ok r \<longrightarrow> 1 \<le> calls \<and> prov (calls - 1) = Returns r \<and> sleeps = calls - 1
                        \<and> (\<forall>j<calls - 1. failed ok (prov j))"
    using facts by auto
  have c: "\<not> ok r \<longrightarrow> calls = 3 \<and> sleeps = 3 \<and> (\<forall>j<3. failed ok (prov j))"
    using facts by auto
  from run a b c show ?thesis by blast
qed

text \<open>
  Claim C4. The fetches of market_analyzer.py, for the current price and for the
  OHLCV series, call the provider at most three times. A call that raises, or returns
  \<^verbatim>\<open>None\<close> (for OHLCV also an empty frame), is followed by one sleep of half a second
  and, while fewer than three calls were made, by the next attempt. The first good value ends the loop and is returned, so two
  failures followed by a good third call return that call's value. When all three
  calls fail, the price fetch returns \<^verbatim>\<open>None\<close> and \<^verbatim>\<open>calculate_indicators\<close> returns
  \<^verbatim>\<open>None\<close>. Both are total functions into an option type: nothing is raised.
\<close>

theorem fetch_retries_at_most_three:
  "(\<exists>price calls sleeps.
      get_current_price_run pp = (price, calls, sleeps) \<and> calls \<le> 3
      \<and> (price \<noteq> None \<longrightarrow> 1 \<le> calls \<and> pp (calls - 1) = Returns price \<and> sleeps = calls - 1
                          \<and> (\<forall>j<calls - 1. failed price_ok (pp j)))
      \<and> (price = None \<longrightarrow> calls = 3 \<and> sleeps = 3 \<and> (\<forall>j<3. failed price_ok (pp j))))
   \<and> (\<exists>df calls sleeps.
      get_ohlcv_run po = (df, calls, sleeps) \<and> calls \<le> 3
      \<and> (frame_ok df \<longrightarrow> 1 \<le> calls \<and> po (calls - 1) = Returns df \<and> sleeps = calls - 1
                          \<and> (\<forall>j<calls - 1. failed frame_ok (po j)))
      \<and> (\<not> frame_ok df \<longrightarrow> calls = 3 \<and> sleeps = 3 \<and> (\<forall>j<3. failed frame_ok (po j))))
   \<and> (failed price_ok (pp 0) \<and> failed price_ok (pp 1) \<and> pp 2 = Returns (Some v)
        \<longrightarrow> get_current_price pp = Some v)
   \<and> (failed frame_ok (po 0) \<and> failed frame_ok (po 1) \<and> po 2 = Returns (Some fr) \<and> fr \<noteq> []
        \<longrightarrow> fst (get_ohlcv_run po) = Some fr
            \<and> calculate_indicators po lib
                = (case lib fr of None \<Rightarrow> None | Some cols \<Rightarrow> Some (add_columns fr cols)))
   \<and> ((\<forall>j<3. failed price_ok (pp j)) \<longrightarrow> get_current_price pp = None)
   \<and> ((\<forall>j<3. failed frame_ok (po j)) \<longrightarrow> calculate_indicators po lib = None)"
proof -
  have pn: "\<not> price_ok None" by (simp add: price_ok_def)
  have fn: "\<not> frame_ok (None :: candle list option)" by (simp add: frame_ok_def)
  have c1: "\<exists>price calls sleeps.
      get_current_price_run pp = (price, calls, sleeps) \<and> calls \<le> 3
      \<and> (price \<noteq> None \<longrightarrow> 1 \<le> calls \<and> pp (calls - 1) = Returns price \<and> sleeps = calls - 1
                          \<and> (\<forall>j<calls - 1. failed price_ok (pp j)))
      \<and> (price = None \<longrightarrow> calls = 3 \<and> sleeps = 3 \<and> (\<forall>j<3. failed price_ok (pp j)))"
    using fetch_loop_summary[of price_ok pp, OF pn]
    unfolding get_current_price_run_def price_ok_def by simp
  have c2: "\<exists>df calls sleeps.
      get_ohlcv_run po = (df, calls, sleeps) \<and> calls \<le> 3
      \<and> (frame_ok df \<longrightarrow> 1 \<le> calls \<and> po (calls - 1) = Returns df \<and> sleeps = calls - 1
                          \<and> (\<forall>j<calls - 1. failed frame_ok (po j)))
      \<and> (\<not> frame_ok df \<longrightarrow> calls = 3 \<and> sleeps = 3 \<and> (\<forall>j<3. failed frame_ok (po j)))"
    using fetch_loop_summary[of frame_ok po, OF fn]
    unfolding get_ohlcv_run_def by simp
  have c3: "failed price_ok (pp 0) \<and> failed price_ok (pp 1) \<and> pp 2 = Returns (Some v)
        \<longrightarrow> get_current_price pp = Some v"
  proof
    assume h: "failed price_ok (pp 0) \<and> failed price_ok (pp 1) \<and> pp 2 = Returns (Some v)"
    have "price_ok (Some v)" by (simp add: price_ok_def)
    with h have "fetch_loop price_ok 3 pp 0 0 None = (Some v, 3, 2)"
      by (simp add: fetch_loop_third_attempt)
    then show "get_current_price pp = Some v"
      by (simp add: get_current_price_def get_current_price_run_def)
  qed
  have c4: "failed frame_ok (po 0) \<and> failed frame_ok (po 1) \<and> po 2 = Returns (Some fr) \<and> fr \<noteq> []
        \<longrightarrow> fst (get_ohlcv_run po) = Some fr
            \<and> calculate_indicators po lib
                = (case lib fr of None \<Rightarrow> None | Some cols \<Rightarrow> Some (add_columns fr cols))"
  proof
    assume h: "failed frame_ok (po 0) \<and> failed frame_ok (po 1) \<and> po 2 = Returns (Some fr) \<and> fr \<noteq> []"
    then have "frame_ok (Some fr)" by (simp add: frame_ok_def)
    with h have "fetch_loop frame_ok 3 po 0 0 None = (Some fr, 3, 2)"
      by (simp add: fetch_loop_third_attempt)
    then have run: "fst (get_ohlcv_run po) = Some fr"
      by (simp add: get_ohlcv_run_def)
    with h show "fst (get_ohlcv_run po) = Some fr
            \<and> calculate_indicators po lib
                = (case lib fr of None \<Rightarrow> None | Some cols \<Rightarrow> Some (add_columns fr cols))"
      by (simp add: calculate_indicators_def)
  qed
  have c5: "(\<forall>j<3. failed price_ok (pp j)) \<longrightarrow> get_current_price pp = None"
  proof
    assume "\<forall>j<3. failed price_ok (pp j)"
    from fetch_loop_all_failed[OF pn this]
    show "get_current_price pp = None"
      by (simp add: get_current_price_def get_current_price_run_def price_ok_def)
  qed
  have c6: "(\<forall>j<3. failed frame_ok (po j)) \<longrightarrow> calculate_indicators po lib = None"
  proof
    assume "\<forall>j<3. failed frame_ok (po j)"
    from fetch_loop_all_failed[OF fn this]
    have "\<not> frame_ok (fst (get_ohlcv_run po))"
      by (simp add: get_ohlcv_run_def)
    then show "calculate_indicators po lib = None"
      by (auto simp: calculate_indicators_def frame_ok_def split: option.splits)
  qed
  show ?thesis
    by (rule conjI[OF c1 conjI[OF c2 conjI[OF c3 conjI[OF c4 conjI[OF c5 c6]]]]])
qed

theorem fetch_retries_at_most_three_witness:
  "failed price_ok (fail_twice_then (100::real) 0)
   \<and> failed price_ok (fail_twice_then (100::real) 1)
   \<and> fail_twice_then (100::real) 2 = Returns (Some 100)
   \<and> get_current_price (fail_twice_then 100) = Some 100
   \<and> failed frame_ok (fail_twice_then [flat_candle 50 10] 0)
   \<and> failed frame_ok (fail_twice_then [flat_candle 50 10] 1)
   \<and> fail_twice_then [flat_candle 50 10] 2 = Returns (Some [flat_candle 50 10])
   \<and> fst (get_ohlcv_run (fail_twice_then [flat_candle 50 10])) = Some [flat_candle 50 10]
   \<and> failed price_ok (never 0 :: real response)
   \<and> failed price_ok (never 1 :: real response)
   \<and> failed price_ok (never 2 :: real response)
   \<and> get_current_price never = None
   \<and> failed frame_ok (never 0 :: candle list response)
   \<and> failed frame_ok (never 1 :: candle list response)
   \<and> failed frame_ok (never 2 :: candle list response)
   \<and> calculate_indicators never nan_library = None"
proof -
  let ?pp = "fail_twice_then (100::real)"
  let ?po = "fail_twice_then [flat_candle 50 10]"
  have p: "failed price_ok (?pp 0) \<and> failed price_ok (?pp 1) \<and> ?pp 2 = Returns (Some 100)"
    by (simp add: fail_twice_then_def failed_def price_ok_def)
  have f: "failed frame_ok (?po 0) \<and> failed frame_ok (?po 1)
           \<and> ?po 2 = Returns (Some [flat_candle 50 10]) \<and> [flat_candle 50 10] \<noteq> []"
    by (simp add: fail_twice_then_def failed_def frame_ok_def)
  have np: "\<forall>j<3. failed price_ok (never j :: real response)"
    by (simp add: never_def failed_def)
  have nf: "\<forall>j<3. failed frame_ok (never j :: candle list response)"
    by (simp add: never_def failed_def)
  note a = fetch_retries_at_most_three[of ?pp ?po 100 "[flat_candle 50 10]" nan_library]
  note b = fetch_retries_at_most_three[of never never 0 "[]" nan_library]
  from a p have r1: "get_current_price ?pp = Some 100" by blast
  from a f have r2: "fst (get_ohlcv_run ?po) = Some [flat_candle 50 10]" by blast
  from b np have r3: "get_current_price never = None" by blast
  from b nf have r4: "calculate_indicators never nan_library = None" by blast
  have e: "failed price_ok (never 0 :: real response) \<and> failed price_ok (never 1 :: real response)
           \<and> failed price_ok (never 2 :: real response)
           \<and> failed frame_ok (never 0 :: candle list response)
           \<and> failed frame_ok (never 1 :: candle list response)
           \<and> failed frame_ok (never 2 :: candle list response)"
    by (simp add: never_def failed_def)
  from p f e r1 r2 r3 r4 show ?thesis by blast
qed

section \<open>Properties of the indicator stage and of the guards of analyze_signals\<close>

lemma length_add_columns: "length (add_columns df cols) = length df"
  by (simp add: add_columns_def)

lemma length_app_add_columns: "length (app_add_columns df cols) = length df"
  by (simp add: app_add_columns_def)

lemma fetch_loop_always:
  "ok (Some v) \<Longrightarrow> fetch_loop ok 3 (always v) 0 0 x = (Some v, 1, 0)"
  by (simp add: eval_nat_numeral always_def)

lemma get_current_price_always: "get_current_price (always p) = Some p"
  by (simp add: get_current_price_def get_current_price_run_def fetch_loop_always price_ok_def)

lemma calculate_indicators_always:
  "fr \<noteq> [] \<Longrightarrow>
   calculate_indicators (always fr) lib
     = (case lib fr of None \<Rightarrow> None | Some cols \<Rightarrow> Some (add_columns fr cols))"
  by (simp add: calculate_indicators_def get_ohlcv_run_def fetch_loop_always frame_ok_def)

lemma calculate_indicators_cases:
  "calculate_indicators po lib =
     (case fst (get_ohlcv_run po) of
        None \<Rightarrow> None
      | Some fr \<Rightarrow> if fr = [] then None else map_option (add_columns fr) (lib fr))"
  by (simp add: calculate_indicators_def map_option_case split: option.splits)

lemma app_calculate_indicators_cases:
  "app_calculate_indicators po lib =
     (case po 0 of
        Raises \<Rightarrow> None
      | Returns None \<Rightarrow> None
      | Returns (Some fr) \<Rightarrow> if fr = [] then None else map_option (app_add_columns fr) (lib fr))"
  by (simp add: app_calculate_indicators_def map_option_case split: option.splits response.splits)

lemma analyze_signals_no_price:
  "get_current_price pp = None \<Longrightarrow> analyze_signals pp po lib vs als s = Inr (None, s)"
  by (simp add: analyze_signals_def)

lemma analyze_signals_no_frame:
  "calculate_indicators po lib = None \<Longrightarrow> analyze_signals pp po lib vs als s = Inr (None, s)"
  by (simp add: analyze_signals_def split: option.splits)

lemma analyze_signals_short:
  "calculate_indicators po lib = Some df \<Longrightarrow> length df < 60 \<Longrightarrow>
   analyze_signals pp po lib vs als s = Inr (None, s)"
  by (simp add: analyze_signals_def split: option.splits)

lemma analyze_signals_scored:
  assumes "get_current_price pp = Some p" and "calculate_indicators po lib = Some df"
    and "60 \<le> length df"
  shows "analyze_signals pp po lib vs als s =
           (case raised (check_volume_surge vs (Some df) s) of
              Some e \<Rightarrow> Inl e
            | None \<Rightarrow>
                (case raised (check_price_alerts als p (after (check_volume_surge vs (Some df) s))) of
                   Some e \<Rightarrow> Inl e
                 | None \<Rightarrow>
                     Inr (Some (build_result (ticker s) p df),
                          after (check_price_alerts als p
                                   (after (check_volume_surge vs (Some df) s))))))"
  using assms by (simp add: analyze_signals_def Let_def split: option.splits)

lemma app_analyze_signals_no_price:
  "app_get_current_price pp = None \<Longrightarrow> app_analyze_signals pp po lib a = (None, False, a)"
  by (simp add: app_analyze_signals_def)

lemma app_analyze_signals_no_frame:
  "app_calculate_indicators po lib = None \<Longrightarrow> app_analyze_signals pp po lib a = (None, False, a)"
  by (simp add: app_analyze_signals_def split: option.splits)

lemma app_analyze_signals_short:
  "app_calculate_indicators po lib = Some df \<Longrightarrow> length df < 20 \<Longrightarrow>
   app_analyze_signals pp po lib a = (None, False, a)"
  by (simp add: app_analyze_signals_def split: option.splits)

lemma app_analyze_signals_scored:
  assumes "app_get_current_price pp = Some p" and "app_calculate_indicators po lib = Some df"
    and "20 \<le> length df"
  shows "fst (app_analyze_signals pp po lib a) =
           Some \<lparr>res_ticker = app_ticker a, res_current_price = p,
                 res_signals = fst (app_rule_blocks (last df)),
                 res_signal_strength = snd (app_rule_blocks (last df)),
                 res_df = df, res_indicators = last df\<rparr>"
  using assms by (simp add: app_analyze_signals_def Let_def)

text \<open>
  Claim C3, as stated, fails for a series that is not empty but shorter than the
  minimum: \<^verbatim>\<open>calculate_indicators\<close> tests only for an absent or empty frame. A frame
  of 59 candles in market_analyzer.py, or of 19 candles in app.py, comes back with
  its indicator columns.
\<close>

theorem compute_short_series_counterexample:
  "length (replicate 59 (flat_candle 50 10)) < 60
   \<and> calculate_indicators (always (replicate 59 (flat_candle 50 10))) nan_library \<noteq> None
   \<and> length (replicate 19 (flat_candle 50 10)) < 20
   \<and> app_calculate_indicators (always (replicate 19 (flat_candle 50 10))) app_nan_library \<noteq> None"
proof -
  have a: "replicate 59 (flat_candle 50 10) \<noteq> []" and b: "replicate 19 (flat_candle 50 10) \<noteq> []"
    by simp_all
  have "calculate_indicators (always (replicate 59 (flat_candle 50 10))) nan_library \<noteq> None"
    by (simp add: calculate_indicators_always[OF a] nan_library_def)
  moreover have "app_calculate_indicators (always (replicate 19 (flat_candle 50 10))) app_nan_library
                   \<noteq> None"
    by (simp add: app_calculate_indicators_def always_def app_nan_library_def)
  ultimately show ?thesis by simp
qed

text \<open>
  Claim C3, amended. \<^verbatim>\<open>calculate_indicators\<close> returns no result exactly when the
  fetched frame is absent or empty or the indicator library raises; otherwise it
  returns the frame with its indicator columns, one row per candle, whatever the
  number of candles. The minimum length is tested by \<^verbatim>\<open>analyze_signals\<close>: a frame of
  fewer than 60 rows in market_analyzer.py, or fewer than 20 in app.py, gives no
  result there.
\<close>

theorem compute_requires_nonempty_series:
  "calculate_indicators po lib =
     (case fst (get_ohlcv_run po) of
        None \<Rightarrow> None
      | Some fr \<Rightarrow> if fr = [] then None else map_option (add_columns fr) (lib fr))
   \<and> app_calculate_indicators po alib =
     (case po 0 of
        Raises \<Rightarrow> None
      | Returns None \<Rightarrow> None
      | Returns (Some fr) \<Rightarrow> if fr = [] then None else map_option (app_add_columns fr) (alib fr))
   \<and> (\<forall>df. calculate_indicators po lib = Some df \<longrightarrow>
         (\<exists>fr. fst (get_ohlcv_run po) = Some fr \<and> fr \<noteq> [] \<and> length df = length fr))
   \<and> (\<forall>df. app_calculate_indicators po alib = Some df \<longrightarrow>
         (\<exists>fr. po 0 = Returns (Some fr) \<and> fr \<noteq> [] \<and> length df = length fr))
   \<and> (\<forall>df. calculate_indicators po lib = Some df \<and> length df < 60 \<longrightarrow>
         analyze_signals pp po lib vs als s = Inr (None, s))
   \<and> (\<forall>df. app_calculate_indicators po alib = Some df \<and> length df < 20 \<longrightarrow>
         app_analyze_signals pp po alib a = (None, False, a))"
proof -
  note c1 = calculate_indicators_cases[of po lib]
  note c2 = app_calculate_indicators_cases[of po alib]
  have c3: "\<forall>df. calculate_indicators po lib = Some df \<longrightarrow>
         (\<exists>fr. fst (get_ohlcv_run po) = Some fr \<and> fr \<noteq> [] \<and> length df = length fr)"
    by (auto simp: c1 length_add_columns split: option.splits if_splits)
  have c4: "\<forall>df. app_calculate_indicators po alib = Some df \<longrightarrow>
         (\<exists>fr. po 0 = Returns (Some fr) \<and> fr \<noteq> [] \<and> length df = length fr)"
    by (auto simp: c2 length_app_add_columns split: option.splits if_splits response.splits)
  have c5: "\<forall>df. calculate_indicators po lib = Some df \<and> length df < 60 \<longrightarrow>
         analyze_signals pp po lib vs als s = Inr (None, s)"
    using analyze_signals_short by blast
  have c6: "\<forall>df. app_calculate_indicators po alib = Some df \<and> length df < 20 \<longrightarrow>
         app_analyze_signals pp po alib a = (None, False, a)"
    using app_analyze_signals_short by blast
  show ?thesis
    by (rule conjI[OF c1 conjI[OF c2 conjI[OF c3 conjI[OF c4 conjI[OF c5 c6]]]]])
qed

theorem compute_requires_nonempty_series_witness:
  "calculate_indicators (always (replicate 59 (flat_candle 50 10))) nan_library
     = Some (add_columns (replicate 59 (flat_candle 50 10)) (\<lambda>i. nan_row 0 0))
   \<and> length (add_columns (replicate 59 (flat_candle 50 10)) (\<lambda>i. nan_row 0 0)) < 60
   \<and> analyze_signals (always 100) (always (replicate 59 (flat_candle 50 10))) nan_library
        plays plays (init ''KRW-BTC'') = Inr (None, init ''KRW-BTC'')
   \<and> app_calculate_indicators (always (replicate 19 (flat_candle 50 10))) app_nan_library
     = Some (app_add_columns (replicate 19 (flat_candle 50 10)) (\<lambda>i. app_nan_row))
   \<and> length (app_add_columns (replicate 19 (flat_candle 50 10)) (\<lambda>i. app_nan_row)) < 20
   \<and> app_analyze_signals (always 100) (always (replicate 19 (flat_candle 50 10))) app_nan_library
        \<lparr>app_ticker = ''KRW-BTC'', last_signal = 0\<rparr>
       = (None, False, \<lparr>app_ticker = ''KRW-BTC'', last_signal = 0\<rparr>)
   \<and> calculate_indicators never nan_library = None"
proof -
  let ?fr = "replicate 59 (flat_candle 50 10)"
  let ?fa = "replicate 19 (flat_candle 50 10)"
  let ?a = "\<lparr>app_ticker = ''KRW-BTC'', last_signal = 0\<rparr>"
  note t = compute_requires_nonempty_series[of "always ?fr" nan_library app_nan_library
             "always 100" plays plays "init ''KRW-BTC''" ?a]
  note u = compute_requires_nonempty_series[of "always ?fa" nan_library app_nan_library
             "always 100" plays plays "init ''KRW-BTC''" ?a]
  note v = compute_requires_nonempty_series[of never nan_library app_nan_library
             "always 100" plays plays "init ''KRW-BTC''" ?a]
  have ne: "?fr \<noteq> []" "?fa \<noteq> []" by simp_all
  have run: "fst (get_ohlcv_run (always ?fr)) = Some ?fr"
    by (simp add: get_ohlcv_run_def fetch_loop_always frame_ok_def)
  from t run have r1: "calculate_indicators (always ?fr) nan_library
     = Some (add_columns ?fr (\<lambda>i. nan_row 0 0))"
    by (simp add: nan_library_def)
  have l1: "length (add_columns ?fr (\<lambda>i. nan_row 0 0)) < 60"
    by (simp add: length_add_columns)
  from t r1 l1 have r2: "analyze_signals (always 100) (always ?fr) nan_library plays plays (init ''KRW-BTC'')
      = Inr (None, init ''KRW-BTC'')"
    by blast
  from u have r3: "app_calculate_indicators (always ?fa) app_nan_library
     = Some (app_add_columns ?fa (\<lambda>i. app_nan_row))"
    by (simp add: always_def app_nan_library_def)
  have l2: "length (app_add_columns ?fa (\<lambda>i. app_nan_row)) < 20"
    by (simp add: length_app_add_columns)
  from u r3 l2 have r4: "app_analyze_signals (always 100) (always ?fa) app_nan_library ?a
      = (None, False, ?a)"
    by blast
  have "fst (get_ohlcv_run (never :: candle list provider)) = None"
    by (simp add: get_ohlcv_run_def never_def eval_nat_numeral)
  with v have r5: "calculate_indicators never nan_library = None"
    by simp
  from r1 l1 r2 r3 l2 r4 r5 show ?thesis by blast
qed

lemma app_warmup_frame:
  "app_calculate_indicators (always (replicate 20 (flat_candle 50 10))) app_warmup_library
     = Some (app_add_columns (replicate 20 (flat_candle 50 10)) app_warmup_columns)"
  by (simp add: app_calculate_indicators_def always_def app_warmup_library_def)

lemma last_app_warmup_frame:
  "last (app_add_columns (replicate 20 (flat_candle 50 10)) app_warmup_columns)
     = app_with_candle (flat_candle 50 10) app_warmup_row"
  by (simp add: app_add_columns_def last_map last_conv_nth app_warmup_columns_def)

text \<open>
  Claim C7, as stated, fails for a latest row whose window is not filled although the
  frame has the minimum number of rows. In app.py a frame of 20 candles passes the
  guard; MACD, which needs 26 rows, is undefined on its latest row, and the analysis
  still returns a result, the MACD block having taken its falling branch.
\<close>

theorem analyze_signals_unfilled_window_counterexample:
  "length (app_add_columns (replicate 20 (flat_candle 50 10)) app_warmup_columns) = 20
   \<and> app_MACD (last (app_add_columns (replicate 20 (flat_candle 50 10)) app_warmup_columns))
       = None
   \<and> fst (app_analyze_signals (always 100) (always (replicate 20 (flat_candle 50 10)))
             app_warmup_library \<lparr>app_ticker = ''KRW-BTC'', last_signal = 0\<rparr>)
       = Some \<lparr>res_ticker = ''KRW-BTC'', res_current_price = 100,
               res_signals = [App_RSI_overbought, App_MACD_down, App_MA_down],
               res_signal_strength = - 4,
               res_df = app_add_columns (replicate 20 (flat_candle 50 10)) app_warmup_columns,
               res_indicators = app_with_candle (flat_candle 50 10) app_warmup_row\<rparr>"
proof -
  let ?df = "app_add_columns (replicate 20 (flat_candle 50 10)) app_warmup_columns"
  have l: "length ?df = 20"
    by (simp add: length_app_add_columns)
  then have len: "20 \<le> length ?df" by simp
  have m: "app_MACD (last ?df) = None"
    by (simp add: last_app_warmup_frame app_with_candle_def app_warmup_row_def)
  have p: "app_get_current_price (always 100) = Some 100"
    by (simp add: app_get_current_price_def always_def)
  have blocks: "app_rule_blocks (app_with_candle (flat_candle 50 10) app_warmup_row)
                  = ([App_RSI_overbought, App_MACD_down, App_MA_down], - 4)"
    by (simp add: app_rule_blocks_def Let_def emit_def app_with_candle_def app_warmup_row_def
          flt_def fgt_def)
  from app_analyze_signals_scored[OF p app_warmup_frame len] l m show ?thesis
    by (simp add: last_app_warmup_frame blocks)
qed

text \<open>
  Claim C7, amended. When the price fetch yields nothing, or \<^verbatim>\<open>calculate_indicators\<close>
  yields nothing, or the frame it yields has fewer rows than the minimum (60 in
  market_analyzer.py, 20 in app.py), \<^verbatim>\<open>analyze_signals\<close> returns \<^verbatim>\<open>None\<close> and leaves
  the analyzer as it was; and it returns \<^verbatim>\<open>None\<close> in no other case. The number of
  rows is the only test of the frame: the values of the latest row are not examined,
  and in app.py a latest row with an undefined MACD or signal line is scored with
  the falling MACD observation.
\<close>

theorem analyze_signals_no_result:
  "(get_current_price pp = None \<or> calculate_indicators po lib = None
      \<or> (\<exists>df. calculate_indicators po lib = Some df \<and> length df < 60)
      \<longrightarrow> analyze_signals pp po lib vs als s = Inr (None, s))
   \<and> (\<forall>s'. analyze_signals pp po lib vs als s = Inr (None, s')
      \<longrightarrow> get_current_price pp = None \<or> calculate_indicators po lib = None
          \<or> (\<exists>df. calculate_indicators po lib = Some df \<and> length df < 60))
   \<and> (app_get_current_price app_pp = None \<or> app_calculate_indicators app_po alib = None
      \<or> (\<exists>df. app_calculate_indicators app_po alib = Some df \<and> length df < 20)
      \<longrightarrow> app_analyze_signals app_pp app_po alib a = (None, False, a))
   \<and> (fst (app_analyze_signals app_pp app_po alib a) = None
      \<longrightarrow> app_get_current_price app_pp = None \<or> app_calculate_indicators app_po alib = None
          \<or> (\<exists>df. app_calculate_indicators app_po alib = Some df \<and> length df < 20))
   \<and> (app_MACD latest = None \<or> app_MACD_Signal latest = None
      \<longrightarrow> App_MACD_down \<in> set (fst (app_rule_blocks latest)))"
proof -
  have c1: "get_current_price pp = None \<or> calculate_indicators po lib = None
      \<or> (\<exists>df. calculate_indicators po lib = Some df \<and> length df < 60)
      \<longrightarrow> analyze_signals pp po lib vs als s = Inr (None, s)"
    using analyze_signals_no_price analyze_signals_no_frame analyze_signals_short by blast
  have c2: "\<forall>s'. analyze_signals pp po lib vs als s = Inr (None, s')
      \<longrightarrow> get_current_price pp = None \<or> calculate_indicators po lib = None
          \<or> (\<exists>df. calculate_indicators po lib = Some df \<and> length df < 60)"
  proof (intro allI impI)
    fix s' assume r: "analyze_signals pp po lib vs als s = Inr (None, s')"
    show "get_current_price pp = None \<or> calculate_indicators po lib = None
          \<or> (\<exists>df. calculate_indicators po lib = Some df \<and> length df < 60)"
    proof (rule ccontr)
      assume n: "\<not> (get_current_price pp = None \<or> calculate_indicators po lib = None
          \<or> (\<exists>df. calculate_indicators po lib = Some df \<and> length df < 60))"
      then obtain p df where p: "get_current_price pp = Some p"
        and df: "calculate_indicators po lib = Some df" and len: "60 \<le> length df"
        by (metis not_le_imp_less not_None_eq)
      from r show False
        unfolding analyze_signals_scored[OF p df len]
        by (simp split: option.splits)
    qed
  qed
  have c3: "app_get_current_price app_pp = None \<or> app_calculate_indicators app_po alib = None
      \<or> (\<exists>df. app_calculate_indicators app_po alib = Some df \<and> length df < 20)
      \<longrightarrow> app_analyze_signals app_pp app_po alib a = (None, False, a)"
    using app_analyze_signals_no_price app_analyze_signals_no_frame app_analyze_signals_short
    by blast
  have c4: "fst (app_analyze_signals app_pp app_po alib a) = None
      \<longrightarrow> app_get_current_price app_pp = None \<or> app_calculate_indicators app_po alib = None
          \<or> (\<exists>df. app_calculate_indicators app_po alib = Some df \<and> length df < 20)"
  proof
    assume r: "fst (app_analyze_signals app_pp app_po alib a) = None"
    show "app_get_current_price app_pp = None \<or> app_calculate_indicators app_po alib = None
          \<or> (\<exists>df. app_calculate_indicators app_po alib = Some df \<and> length df < 20)"
    proof (rule ccontr)
      assume n: "\<not> (app_get_current_price app_pp = None \<or> app_calculate_indicators app_po alib = None
          \<or> (\<exists>df. app_calculate_indicators app_po alib = Some df \<and> length df < 20))"
      then obtain p df where p: "app_get_current_price app_pp = Some p"
        and df: "app_calculate_indicators app_po alib = Some df" and len: "20 \<le> length df"
        by (metis not_le_imp_less not_None_eq)
      from r show False
        unfolding app_analyze_signals_scored[OF p df len] by simp
    qed
  qed
  have c5: "app_MACD latest = None \<or> app_MACD_Signal latest = None
      \<longrightarrow> App_MACD_down \<in> set (fst (app_rule_blocks latest))"
    by (auto simp: app_rule_blocks_def Let_def emit_def fgt_def split: option.splits)
  show ?thesis
    by (rule conjI[OF c1 conjI[OF c2 conjI[OF c3 conjI[OF c4 c5]]]])
qed

theorem analyze_signals_no_result_witness:
  "get_current_price never = None
   \<and> analyze_signals never (always (replicate 59 (flat_candle 50 10))) nan_library
        plays plays (init ''KRW-BTC'') = Inr (None, init ''KRW-BTC'')
   \<and> app_get_current_price never = None
   \<and> app_analyze_signals never (always (replicate 19 (flat_candle 50 10))) app_nan_library
        \<lparr>app_ticker = ''KRW-BTC'', last_signal = 0\<rparr>
       = (None, False, \<lparr>app_ticker = ''KRW-BTC'', last_signal = 0\<rparr>)
   \<and> (\<exists>df. calculate_indicators (always (replicate 59 (flat_candle 50 10))) nan_library = Some df
         \<and> length df < 60)
   \<and> analyze_signals (always 100) (always (replicate 59 (flat_candle 50 10))) nan_library
        plays plays (init ''KRW-BTC'') = Inr (None, init ''KRW-BTC'')
   \<and> (\<exists>df. app_calculate_indicators (always (replicate 19 (flat_candle 50 10))) app_nan_library
               = Some df \<and> length df < 20)
   \<and> app_analyze_signals (always 100) (always (replicate 19 (flat_candle 50 10))) app_nan_library
        \<lparr>app_ticker = ''KRW-BTC'', last_signal = 0\<rparr>
       = (None, False, \<lparr>app_ticker = ''KRW-BTC'', last_signal = 0\<rparr>)
   \<and> app_MACD app_warmup_row = None
   \<and> App_MACD_down \<in> set (fst (app_rule_blocks app_warmup_row))"
proof -
  let ?fr = "replicate 59 (flat_candle 50 10)"
  let ?fa = "replicate 19 (flat_candle 50 10)"
  let ?a = "\<lparr>app_ticker = ''KRW-BTC'', last_signal = 0\<rparr>"
  let ?s = "init ''KRW-BTC''"
  note t = analyze_signals_no_result[of never "always ?fr" nan_library plays plays ?s
             never "always ?fa" app_nan_library ?a app_warmup_row]
  note u = analyze_signals_no_result[of "always 100" "always ?fr" nan_library plays plays ?s
             "always 100" "always ?fa" app_nan_library ?a app_warmup_row]
  have p: "get_current_price never = None"
    by (simp add: get_current_price_def get_current_price_run_def never_def eval_nat_numeral)
  have q: "app_get_current_price never = None"
    by (simp add: app_get_current_price_def never_def)
  have ne: "?fr \<noteq> []" by simp
  have "calculate_indicators (always ?fr) nan_library = Some (add_columns ?fr (\<lambda>i. nan_row 0 0))"
    by (simp add: calculate_indicators_always[OF ne] nan_library_def)
  then have short: "\<exists>df. calculate_indicators (always ?fr) nan_library = Some df \<and> length df < 60"
    by (simp add: length_add_columns)
  have "app_calculate_indicators (always ?fa) app_nan_library
          = Some (app_add_columns ?fa (\<lambda>i. app_nan_row))"
    by (simp add: app_calculate_indicators_def always_def app_nan_library_def)
  then have ashort: "\<exists>df. app_calculate_indicators (always ?fa) app_nan_library = Some df
                          \<and> length df < 20"
    by (simp add: length_app_add_columns)
  from t p have r1: "analyze_signals never (always ?fr) nan_library plays plays ?s = Inr (None, ?s)"
    by blast
  from t q have r2: "app_analyze_signals never (always ?fa) app_nan_library ?a = (None, False, ?a)"
    by blast
  from u short have r3: "analyze_signals (always 100) (always ?fr) nan_library plays plays ?s = Inr (None, ?s)"
    by blast
  from u ashort have r4: "app_analyze_signals (always 100) (always ?fa) app_nan_library ?a
                            = (None, False, ?a)"
    by blast
  have w: "app_MACD app_warmup_row = None"
    by (simp add: app_warmup_row_def)
  with t have r5: "App_MACD_down \<in> set (fst (app_rule_blocks app_warmup_row))"
    by blast
  from p q short ashort r1 r2 r3 r4 w r5 show ?thesis by blast
qed

section \<open>Properties of the rule blocks and of the result\<close>

lemma block_rsi_eq:
  "block_rsi latest st = (fst st @ fst (rule_rsi latest), snd st + snd (rule_rsi latest))"
  by (simp add: block_rsi_def rule_rsi_def emit_def)

lemma block_macd_eq:
  "block_macd latest h st = (fst st @ fst (rule_macd latest h), snd st + snd (rule_macd latest h))"
  by (simp add: block_macd_def rule_macd_def emit_def remark_def)

lemma block_ma_eq:
  "block_ma latest st = (fst st @ fst (rule_ma latest), snd st + snd (rule_ma latest))"
  by (simp add: block_ma_def rule_ma_def emit_def)

lemma block_bollinger_eq:
  "block_bollinger latest p st
     = (fst st @ fst (rule_bollinger latest p), snd st + snd (rule_bollinger latest p))"
  by (simp add: block_bollinger_def rule_bollinger_def emit_def)

lemma block_stochastic_eq:
  "block_stochastic latest st
     = (fst st @ fst (rule_stochastic latest), snd st + snd (rule_stochastic latest))"
  by (simp add: block_stochastic_def rule_stochastic_def emit_def)

lemma block_dmi_eq:
  "block_dmi latest st = (fst st @ fst (rule_dmi latest), snd st + snd (rule_dmi latest))"
  by (auto simp: block_dmi_def rule_dmi_def emit_def)

lemma block_obv_eq:
  "block_obv latest m st = (fst st @ fst (rule_obv latest m), snd st + snd (rule_obv latest m))"
  by (simp add: block_obv_def rule_obv_def emit_def)

lemma block_ichimoku_eq:
  "block_ichimoku latest st
     = (fst st @ fst (rule_ichimoku latest), snd st + snd (rule_ichimoku latest))"
  by (simp add: block_ichimoku_def rule_ichimoku_def emit_def)

lemma block_roc_eq:
  "block_roc latest st = (fst st @ fst (rule_roc latest), snd st + snd (rule_roc latest))"
  by (simp add: block_roc_def rule_roc_def emit_def)

lemma block_channel_eq:
  "block_channel latest p st
     = (fst st @ fst (rule_channel latest p), snd st + snd (rule_channel latest p))"
  by (simp add: block_channel_def rule_channel_def emit_def)

lemmas block_eqs =
  block_rsi_eq block_macd_eq block_ma_eq block_bollinger_eq block_stochastic_eq
  block_dmi_eq block_obv_eq block_ichimoku_eq block_roc_eq block_channel_eq

lemma rule_blocks_sum:
  "rule_blocks df price
     = (concat (map fst (rules df price)), sum_list (map snd (rules df price)))"
  by (simp add: rule_blocks_def Let_def block_eqs rules_def)

lemma rule_ranges:
  "snd (rule_rsi l) \<in> {- 1, 0, 1}" "snd (rule_macd l h) \<in> {- 1, 0, 1}"
  "snd (rule_ma l) \<in> {- 1, 0, 1}" "snd (rule_bollinger l p) \<in> {- 1, 0, 1}"
  "snd (rule_stochastic l) \<in> {- 1, 0, 1}" "snd (rule_dmi l) \<in> {- 1, 0, 1}"
  "snd (rule_obv l m) \<in> {- 1, 0, 1}" "snd (rule_ichimoku l) \<in> {- 1, 0, 1}"
  "snd (rule_roc l) \<in> {- 1, 0, 1}" "snd (rule_channel l p) \<in> {- 1, 0, 1}"
  by (simp_all add: rule_rsi_def rule_macd_def rule_ma_def rule_bollinger_def
        rule_stochastic_def rule_dmi_def rule_obv_def rule_ichimoku_def rule_roc_def
        rule_channel_def)

lemma rules_range: "\<forall>r \<in> set (rules df price). snd r \<in> {- 1, 0, 1}"
  unfolding rules_def using rule_ranges by simp

lemma app_rule_blocks_sum:
  "app_rule_blocks latest
     = (concat (map fst (app_rules latest)), sum_list (map snd (app_rules latest)))"
  by (simp add: app_rule_blocks_def Let_def app_rules_def app_rule_rsi_def app_rule_macd_def
        app_rule_ma_def emit_def)

lemma app_rule_ranges:
  "snd (app_rule_rsi l) \<in> {- 2, 0, 2}" "snd (app_rule_macd l) \<in> {- 1, 1}"
  "snd (app_rule_ma l) \<in> {- 1, 1}"
  by (simp_all add: app_rule_rsi_def app_rule_macd_def app_rule_ma_def)

lemma build_result_eq:
  "build_result tk p df =
     [(''ticker'', PyStr tk),
      (''current_price'', PyFloat (Some p)),
      (''signals'', PySignals (fst (rule_blocks df p))),
      (''signal_strength'', PyInt (snd (rule_blocks df p))),
      (''rsi'', PyFloat (RSI (last df))),
      (''ma5'', PyFloat (MA5 (last df))),
      (''ma20'', PyFloat (MA20 (last df))),
      (''ma60'', PyFloat (MA60 (last df))),
      (''Stoch_K'', PyFloat (Stoch_K (last df))),
      (''Stoch_D'', PyFloat (Stoch_D (last df))),
      (''ADX'', PyFloat (ADX (last df))),
      (''DI_plus'', PyFloat (DI_plus (last df))),
      (''DI_minus'', PyFloat (DI_minus (last df))),
      (''OBV'', PyFloat (OBV (last df)))]"
  by (simp add: build_result_def initial_result_def dict_set_def dict_keys_def Let_def)

lemma build_result_strength:
  "map_of (build_result tk p df) ''signal_strength'' = Some (PyInt (snd (rule_blocks df p)))"
  by (simp add: build_result_eq)

lemma build_result_obv:
  "map_of (build_result tk p df) ''OBV'' = Some (PyFloat (OBV (last df)))"
  by (simp add: build_result_eq)

lemma build_result_no_obv_ma:
  "map_of (build_result tk p df) ''OBV_MA'' = None"
  by (simp add: build_result_eq)

lemma analyze_signals_result:
  assumes "analyze_signals pp po lib vs als s = Inr (Some result, s')"
  shows "\<exists>p fr. get_current_price pp = Some p \<and> calculate_indicators po lib = Some fr
                \<and> 60 \<le> length fr \<and> result = build_result (ticker s) p fr"
proof -
  from assms obtain p where p: "get_current_price pp = Some p"
    by (cases "get_current_price pp") (simp_all add: analyze_signals_no_price)
  from assms obtain fr where fr: "calculate_indicators po lib = Some fr"
    by (cases "calculate_indicators po lib") (simp_all add: analyze_signals_no_frame)
  from assms fr have len: "60 \<le> length fr"
    by (cases "length fr < 60") (simp_all add: analyze_signals_short)
  from assms have "result = build_result (ticker s) p fr"
    unfolding analyze_signals_scored[OF p fr len]
    by (auto split: option.splits)
  with p fr len show ?thesis by blast
qed

lemma app_analyze_signals_result:
  assumes "fst (app_analyze_signals pp po lib a) = Some res"
  shows "\<exists>fr. app_calculate_indicators po lib = Some fr \<and> 20 \<le> length fr
              \<and> res_signal_strength res = snd (app_rule_blocks (last fr))"
proof -
  from assms obtain p where p: "app_get_current_price pp = Some p"
    by (cases "app_get_current_price pp") (simp_all add: app_analyze_signals_no_price)
  from assms obtain fr where fr: "app_calculate_indicators po lib = Some fr"
    by (cases "app_calculate_indicators po lib") (simp_all add: app_analyze_signals_no_frame)
  from assms fr have len: "20 \<le> length fr"
    by (cases "length fr < 20") (simp_all add: app_analyze_signals_short)
  from assms have "res_signal_strength res = snd (app_rule_blocks (last fr))"
    unfolding app_analyze_signals_scored[OF p fr len] by auto
  with fr len show ?thesis by blast
qed

subsection \<open>The sample frame\<close>

lemma length_scenario_frame: "length (scenario_frame c) = 60"
  by (simp add: scenario_frame_def scenario_candles_def length_add_columns)

lemma nth_scenario_frame:
  "i < 59 \<Longrightarrow> scenario_frame c ! i = with_candle (flat_candle 105 10) earlier_row"
  by (simp add: scenario_frame_def scenario_candles_def add_columns_def nth_append
        scenario_columns_def)

lemma last_scenario_frame:
  "last (scenario_frame c)
     = with_candle \<lparr>px_open = c, high = c + 1, low = 99, close = c, volume = 10\<rparr> scenario_row"
  by (simp add: scenario_frame_def scenario_candles_def add_columns_def last_map nth_append
        scenario_columns_def last_conv_nth)

lemma OBV_with_candle: "OBV (with_candle c r) = OBV r"
  by (simp add: with_candle_def)

lemma OBV_scenario_frame:
  "map OBV (scenario_frame c) = map (\<lambda>i. OBV (scenario_columns i)) [0..<60]"
  by (simp add: scenario_frame_def add_columns_def scenario_candles_def OBV_with_candle)

lemma obv_ma_scenario_frame:
  "rolling_mean_last 20 (map OBV (scenario_frame c)) = Some (39 / 4)"
proof -
  define xs where "xs = map OBV (scenario_frame c)"
  have l: "length xs = 60"
    by (simp add: xs_def length_scenario_frame)
  have d: "drop 40 (map (\<lambda>i. OBV (scenario_columns i)) [0..<60])
           = map (\<lambda>i. OBV (scenario_columns i)) [40..<60]"
    by (simp add: drop_map)
  have e: "map (\<lambda>i. OBV (scenario_columns i)) [40..<60] = replicate 19 (Some 10) @ [Some 5]"
    by (simp add: scenario_columns_def scenario_row_def earlier_row_def nan_row_def
          upt_rec_numeral eval_nat_numeral)
  have w: "drop (length xs - 20) xs = replicate 19 (Some 10) @ [Some 5]"
    unfolding l unfolding xs_def OBV_scenario_frame using d e by simp
  have "rolling_mean_last 20 xs = Some (39 / 4)"
    unfolding rolling_mean_last_def Let_def w by (simp add: l sum_list_replicate)
  then show ?thesis by (simp add: xs_def)
qed

lemma prev_hist_scenario_frame:
  "MACD_Hist (scenario_frame c ! (length (scenario_frame c) - 2)) = Some (- 1)"
  by (simp add: length_scenario_frame nth_scenario_frame with_candle_def earlier_row_def)

lemma scenario_frame_holds: "scenario_but_ichimoku (scenario_frame c) 99"
  unfolding scenario_but_ichimoku_def Let_def prev_hist_scenario_frame obv_ma_scenario_frame
    last_scenario_frame
  by (simp add: with_candle_def scenario_row_def flt_def fgt_def fle_def)

lemma rules_scenario_frame:
  "rules (scenario_frame c) 99 =
     [([RSI_oversold], 1), ([MACD_down_stronger], - 1), ([MA_dead_cross], - 1), ([], 0),
      ([Stoch_oversold_rebound], 1), ([DMI_strong_down], - 1), ([OBV_down], - 1),
      rule_ichimoku (last (scenario_frame c)),
      ([ROC_strong_down], - 1), ([Lower_channel_break], - 1)]"
  unfolding rules_def prev_hist_scenario_frame obv_ma_scenario_frame
  unfolding last_scenario_frame
  by (simp add: with_candle_def scenario_row_def flt_def fgt_def fle_def fge_def
        rule_rsi_def rule_macd_def rule_ma_def rule_bollinger_def rule_stochastic_def
        rule_dmi_def rule_obv_def rule_roc_def rule_channel_def)

lemma ichimoku_scenario_frame_below:
  "rule_ichimoku (last (scenario_frame 99)) = ([Ichimoku_down], - 1)"
  unfolding last_scenario_frame
  by (simp add: rule_ichimoku_def with_candle_def scenario_row_def flt_def fgt_def)

lemma ichimoku_scenario_frame_above:
  "rule_ichimoku (last (scenario_frame 101)) = ([Ichimoku_up], 1)"
  unfolding last_scenario_frame
  by (simp add: rule_ichimoku_def with_candle_def scenario_row_def flt_def fgt_def)

lemma analyze_scenario_frame:
  "analyze_signals (always 99) (always (scenario_candles c)) scenario_library vs als (init tk)
     = Inr (Some (build_result tk 99 (scenario_frame c)), (init tk)\<lparr>last_volume := Some 10\<rparr>)"
proof -
  have ne: "scenario_candles c \<noteq> []"
    by (simp add: scenario_candles_def)
  have fr: "calculate_indicators (always (scenario_candles c)) scenario_library
              = Some (scenario_frame c)"
    by (simp add: calculate_indicators_always[OF ne] scenario_library_def scenario_frame_def)
  have len: "60 \<le> length (scenario_frame c)"
    by (simp add: length_scenario_frame)
  have len2: "2 \<le> length (scenario_frame c)"
    by (simp add: length_scenario_frame)
  have vol: "check_volume_surge vs (Some (scenario_frame c)) (init tk)
               = (None, None, (init tk)\<lparr>last_volume := Some 10\<rparr>)"
    by (simp add: check_volume_surge_long[OF len2] last_scenario_frame with_candle_def init_def)
  have al: "check_price_alerts als 99 ((init tk)\<lparr>last_volume := Some 10\<rparr>)
              = ([], None, (init tk)\<lparr>last_volume := Some 10\<rparr>)"
    by (simp add: check_price_alerts_def init_def)
  show ?thesis
    unfolding analyze_signals_scored[OF get_current_price_always fr len] vol
    unfolding raised_def after_def fst_conv snd_conv al
    by (simp add: init_def)
qed

text \<open>
  Claim C1, as stated, fails in its scenario: the Ichimoku block compares the close
  of the latest candle with the two spans, not the current price. With every
  condition of the scenario met at a current price of 99, which is below both spans,
  and the latest candle closing at 101, above both spans, the score is \<open>-3\<close>.
\<close>

theorem scenario_price_below_spans_counterexample:
  "scenario_but_ichimoku (scenario_frame 101) 99
   \<and> below_both_spans (last (scenario_frame 101)) 99
   \<and> snd (rule_blocks (scenario_frame 101) 99) = - 3
   \<and> map_of (build_result ''KRW-BTC'' 99 (scenario_frame 101)) ''signal_strength''
       = Some (PyInt (- 3))"
proof -
  have a: "below_both_spans (last (scenario_frame 101)) 99"
    unfolding last_scenario_frame
    by (simp add: below_both_spans_def with_candle_def scenario_row_def flt_def)
  have b: "snd (rule_blocks (scenario_frame 101) 99) = - 3"
    by (simp add: rule_blocks_sum rules_scenario_frame ichimoku_scenario_frame_above)
  from scenario_frame_holds[of 101] a b show ?thesis
    by (simp add: build_result_strength)
qed

text \<open>
  Claim C1, amended. The ten blocks of market_analyzer.py, run in order on the
  latest row, the previous histogram value and the current price, leave in
  \<^verbatim>\<open>signals\<close> the observations of the ten rules in order and in \<^verbatim>\<open>signal_strength\<close>
  the sum of their contributions, each of which is \<open>-1\<close>, 0 or 1; that sum is the
  \<^verbatim>\<open>signal_strength\<close> entry of every result \<^verbatim>\<open>analyze_signals\<close> returns. The three
  blocks of app.py give the sum of three contributions, the RSI one being \<open>-2\<close>, 0
  or 2 and the other two \<open>-1\<close> or 1. No rule depends on the outcome of another.
  In the worked scenario, with the close of the latest candle below both Ichimoku
  spans, the score is \<open>-5\<close> with nine observations.
\<close>

theorem signal_strength_is_sum_of_rules:
  "rule_blocks df price
     = (concat (map fst (rules df price)), sum_list (map snd (rules df price)))
   \<and> length (rules df price) = 10
   \<and> (\<forall>r \<in> set (rules df price). snd r \<in> {- 1, 0, 1})
   \<and> map_of (build_result tk price df) ''signal_strength''
       = Some (PyInt (sum_list (map snd (rules df price))))
   \<and> (\<forall>result s'. analyze_signals pp po lib vs als s = Inr (Some result, s') \<longrightarrow>
         (\<exists>p fr. get_current_price pp = Some p \<and> calculate_indicators po lib = Some fr
            \<and> 60 \<le> length fr
            \<and> map_of result ''signal_strength'' = Some (PyInt (sum_list (map snd (rules fr p))))))
   \<and> app_rule_blocks latest
       = (concat (map fst (app_rules latest)), sum_list (map snd (app_rules latest)))
   \<and> snd (app_rule_rsi latest) \<in> {- 2, 0, 2}
   \<and> snd (app_rule_macd latest) \<in> {- 1, 1}
   \<and> snd (app_rule_ma latest) \<in> {- 1, 1}
   \<and> (\<forall>res. fst (app_analyze_signals app_pp app_po alib a) = Some res \<longrightarrow>
         (\<exists>fr. app_calculate_indicators app_po alib = Some fr \<and> 20 \<le> length fr
            \<and> res_signal_strength res = sum_list (map snd (app_rules (last fr)))))
   \<and> (scenario_but_ichimoku df price \<and> below_both_spans (last df) (close (last df))
        \<longrightarrow> snd (rule_blocks df price) = - 5 \<and> length (fst (rule_blocks df price)) = 9)"
proof -
  note c1 = rule_blocks_sum[of df price]
  have c2: "length (rules df price) = 10"
    by (simp add: rules_def)
  note c3 = rules_range[of df price]
  have c4: "map_of (build_result tk price df) ''signal_strength''
       = Some (PyInt (sum_list (map snd (rules df price))))"
    by (simp add: build_result_strength rule_blocks_sum)
  have c5: "\<forall>result s'. analyze_signals pp po lib vs als s = Inr (Some result, s') \<longrightarrow>
         (\<exists>p fr. get_current_price pp = Some p \<and> calculate_indicators po lib = Some fr
            \<and> 60 \<le> length fr
            \<and> map_of result ''signal_strength'' = Some (PyInt (sum_list (map snd (rules fr p)))))"
  proof (intro allI impI)
    fix result s' assume "analyze_signals pp po lib vs als s = Inr (Some result, s')"
    from analyze_signals_result[OF this]
    obtain p fr where "get_current_price pp = Some p" "calculate_indicators po lib = Some fr"
      "60 \<le> length fr" "result = build_result (ticker s) p fr"
      by blast
    then show "\<exists>p fr. get_current_price pp = Some p \<and> calculate_indicators po lib = Some fr
            \<and> 60 \<le> length fr
            \<and> map_of result ''signal_strength'' = Some (PyInt (sum_list (map snd (rules fr p))))"
      by (auto simp: build_result_strength rule_blocks_sum)
  qed
  note c6 = app_rule_blocks_sum[of latest]
  note c7 = app_rule_ranges(1)[of latest]
  note c8 = app_rule_ranges(2)[of latest]
  note c9 = app_rule_ranges(3)[of latest]
  have c10: "\<forall>res. fst (app_analyze_signals app_pp app_po alib a) = Some res \<longrightarrow>
         (\<exists>fr. app_calculate_indicators app_po alib = Some fr \<and> 20 \<le> length fr
            \<and> res_signal_strength res = sum_list (map snd (app_rules (last fr))))"
  proof (intro allI impI)
    fix res assume "fst (app_analyze_signals app_pp app_po alib a) = Some res"
    from app_analyze_signals_result[OF this]
    show "\<exists>fr. app_calculate_indicators app_po alib = Some fr \<and> 20 \<le> length fr
            \<and> res_signal_strength res = sum_list (map snd (app_rules (last fr)))"
      by (simp add: app_rule_blocks_sum)
  qed
  have c11: "scenario_but_ichimoku df price \<and> below_both_spans (last df) (close (last df))
        \<longrightarrow> snd (rule_blocks df price) = - 5 \<and> length (fst (rule_blocks df price)) = 9"
  proof
    assume h: "scenario_but_ichimoku df price \<and> below_both_spans (last df) (close (last df))"
    let ?l = "last df"
    from h have r1: "rule_rsi ?l = ([RSI_oversold], 1)"
      by (simp add: scenario_but_ichimoku_def Let_def rule_rsi_def flt_def)
    from h have r2: "rule_macd ?l (MACD_Hist (df ! (length df - 2))) = ([MACD_down_stronger], - 1)"
      by (auto simp: scenario_but_ichimoku_def Let_def rule_macd_def flt_def fgt_def
            split: option.splits)
    from h have r3: "rule_ma ?l = ([MA_dead_cross], - 1)"
      by (auto simp: scenario_but_ichimoku_def Let_def rule_ma_def flt_def fgt_def
            split: option.splits)
    from h have r4: "rule_bollinger ?l price = ([], 0)"
      by (auto simp: scenario_but_ichimoku_def Let_def rule_bollinger_def flt_def fgt_def fle_def
            split: option.splits)
    from h have r5: "rule_stochastic ?l = ([Stoch_oversold_rebound], 1)"
      by (simp add: scenario_but_ichimoku_def Let_def rule_stochastic_def flt_def fgt_def)
    from h have r6: "rule_dmi ?l = ([DMI_strong_down], - 1)"
      by (auto simp: scenario_but_ichimoku_def Let_def rule_dmi_def flt_def fgt_def
            split: option.splits)
    from h have r7: "rule_obv ?l (rolling_mean_last 20 (map OBV df)) = ([OBV_down], - 1)"
      by (auto simp: scenario_but_ichimoku_def Let_def rule_obv_def flt_def fgt_def
            split: option.splits)
    from h have r8: "rule_ichimoku ?l = ([Ichimoku_down], - 1)"
      by (auto simp: below_both_spans_def rule_ichimoku_def flt_def fgt_def
            split: option.splits)
    from h have r9: "rule_roc ?l = ([ROC_strong_down], - 1)"
      by (simp add: scenario_but_ichimoku_def Let_def rule_roc_def flt_def fgt_def)
    from h have r10: "rule_channel ?l price = ([Lower_channel_break], - 1)"
      by (auto simp: scenario_but_ichimoku_def Let_def rule_channel_def flt_def fge_def fle_def
            split: option.splits)
    show "snd (rule_blocks df price) = - 5 \<and> length (fst (rule_blocks df price)) = 9"
      by (simp add: rule_blocks_sum rules_def r1 r2 r3 r4 r5 r6 r7 r8 r9 r10)
  qed
  show ?thesis
    by (rule conjI[OF c1 conjI[OF c2 conjI[OF c3 conjI[OF c4 conjI[OF c5 conjI[OF c6
          conjI[OF c7 conjI[OF c8 conjI[OF c9 conjI[OF c10 c11]]]]]]]]]])
qed

theorem signal_strength_is_sum_of_rules_witness:
  "scenario_but_ichimoku (scenario_frame 99) 99
   \<and> below_both_spans (last (scenario_frame 99)) (close (last (scenario_frame 99)))
   \<and> snd (rule_blocks (scenario_frame 99) 99) = - 5
   \<and> length (fst (rule_blocks (scenario_frame 99) 99)) = 9
   \<and> analyze_signals (always 99) (always (scenario_candles 99)) scenario_library
        mute mute (init ''KRW-BTC'')
       = Inr (Some (build_result ''KRW-BTC'' 99 (scenario_frame 99)),
              (init ''KRW-BTC'')\<lparr>last_volume := Some 10\<rparr>)
   \<and> map_of (build_result ''KRW-BTC'' 99 (scenario_frame 99)) ''signal_strength''
       = Some (PyInt (- 5))
   \<and> (\<exists>res. fst (app_analyze_signals (always 100) (always (replicate 20 (flat_candle 50 10)))
                    app_nan_library \<lparr>app_ticker = ''KRW-BTC'', last_signal = 0\<rparr>) = Some res
          \<and> res_signal_strength res = - 2)"
proof -
  let ?df = "scenario_frame 99"
  let ?fa = "replicate 20 (flat_candle 50 10)"
  let ?a = "\<lparr>app_ticker = ''KRW-BTC'', last_signal = 0\<rparr>"
  let ?adf = "app_add_columns ?fa (\<lambda>i. app_nan_row)"
  note t = signal_strength_is_sum_of_rules[of ?df 99 "''KRW-BTC''" "always 99"
      "always (scenario_candles 99)" scenario_library mute mute "init ''KRW-BTC''"
      "last ?adf" "always 100" "always ?fa" app_nan_library ?a]
  have h1: "scenario_but_ichimoku ?df 99"
    by (rule scenario_frame_holds)
  have h2: "below_both_spans (last ?df) (close (last ?df))"
    unfolding last_scenario_frame
    by (simp add: below_both_spans_def with_candle_def scenario_row_def flt_def)
  from t h1 h2 have score: "snd (rule_blocks ?df 99) = - 5"
    and count: "length (fst (rule_blocks ?df 99)) = 9"
    by blast+
  from t have sum: "rule_blocks ?df 99
      = (concat (map fst (rules ?df 99)), sum_list (map snd (rules ?df 99)))"
    by blast
  from t have "map_of (build_result ''KRW-BTC'' 99 ?df) ''signal_strength''
       = Some (PyInt (sum_list (map snd (rules ?df 99))))"
    by blast
  with sum score have entry: "map_of (build_result ''KRW-BTC'' 99 ?df) ''signal_strength''
       = Some (PyInt (- 5))"
    by simp
  note run = analyze_scenario_frame[of 99 mute mute "''KRW-BTC''"]
  have ap: "app_get_current_price (always 100) = Some 100"
    by (simp add: app_get_current_price_def always_def)
  have af: "app_calculate_indicators (always ?fa) app_nan_library = Some ?adf"
    by (simp add: app_calculate_indicators_def always_def app_nan_library_def)
  have al: "20 \<le> length ?adf"
    by (simp add: length_app_add_columns)
  from app_analyze_signals_scored[OF ap af al, of ?a]
  obtain res where res: "fst (app_analyze_signals (always 100) (always ?fa) app_nan_library ?a)
                           = Some res"
    by blast
  with t obtain fr where fr: "app_calculate_indicators (always ?fa) app_nan_library = Some fr"
    and s: "res_signal_strength res = sum_list (map snd (app_rules (last fr)))"
    by blast
  from fr af have "fr = ?adf" by simp
  moreover have "last ?adf = app_with_candle (flat_candle 50 10) app_nan_row"
    by (simp add: app_add_columns_def last_map last_conv_nth)
  ultimately have "res_signal_strength res = - 2"
    using s
    by (simp add: app_rules_def app_rule_rsi_def app_rule_macd_def app_rule_ma_def
          app_with_candle_def app_nan_row_def flt_def fgt_def)
  with res have app: "\<exists>res. fst (app_analyze_signals (always 100) (always ?fa)
                    app_nan_library ?a) = Some res \<and> res_signal_strength res = - 2"
    by blast
  from h1 h2 score count run entry app show ?thesis
    by blast
qed

text \<open>
  Claim C8. Every result that \<^verbatim>\<open>analyze_signals\<close> returns has an \<^verbatim>\<open>OBV\<close> entry, the
  OBV of the latest row, and no \<^verbatim>\<open>OBV_MA\<close> entry, so the lookup with default
  yields the default 0 and the report prints the buyers' line exactly when the
  latest OBV exceeds zero. The 20-row average that the OBV rule block compares with
  is a local variable and does not reach the result.
\<close>

theorem report_compares_obv_with_zero:
  assumes "analyze_signals pp po lib vs als s = Inr (Some result, s')"
  shows "map_of result ''OBV_MA'' = None
         \<and> dict_get result ''OBV_MA'' (PyInt 0) = PyInt 0
         \<and> (\<exists>p fr. get_current_price pp = Some p \<and> calculate_indicators po lib = Some fr
               \<and> 60 \<le> length fr
               \<and> map_of result ''OBV'' = Some (PyFloat (OBV (last fr)))
               \<and> print_obv_line result
                   = Some (if fgt (OBV (last fr)) (Some 0) then OBV_buyers_lead
                           else OBV_sellers_lead))"
proof -
  from analyze_signals_result[OF assms]
  obtain p fr where p: "get_current_price pp = Some p"
    and fr: "calculate_indicators po lib = Some fr" and len: "60 \<le> length fr"
    and res: "result = build_result (ticker s) p fr"
    by blast
  have none: "map_of result ''OBV_MA'' = None"
    by (simp add: res build_result_no_obv_ma)
  then have dflt: "dict_get result ''OBV_MA'' (PyInt 0) = PyInt 0"
    by (simp add: dict_get_def)
  have obv: "map_of result ''OBV'' = Some (PyFloat (OBV (last fr)))"
    by (simp add: res build_result_obv)
  have line: "print_obv_line result
                = Some (if fgt (OBV (last fr)) (Some 0) then OBV_buyers_lead else OBV_sellers_lead)"
    by (simp add: print_obv_line_def obv dflt)
  from none dflt p fr len obv line show ?thesis
    by blast
qed

text \<open>
  On the sample frame the latest OBV is 5 and its 20-row average is 9.75: the rule
  block records the falling OBV, and the report prints the buyers' line.
\<close>

theorem report_compares_obv_with_zero_witness:
  "analyze_signals (always 99) (always (scenario_candles 99)) scenario_library mute mute
       (init ''KRW-BTC'')
     = Inr (Some (build_result ''KRW-BTC'' 99 (scenario_frame 99)),
            (init ''KRW-BTC'')\<lparr>last_volume := Some 10\<rparr>)
   \<and> map_of (build_result ''KRW-BTC'' 99 (scenario_frame 99)) ''OBV_MA'' = None
   \<and> OBV (last (scenario_frame 99)) = Some 5
   \<and> rolling_mean_last 20 (map OBV (scenario_frame 99)) = Some (39 / 4)
   \<and> OBV_down \<in> set (fst (rule_blocks (scenario_frame 99) 99))
   \<and> print_obv_line (build_result ''KRW-BTC'' 99 (scenario_frame 99)) = Some OBV_buyers_lead"
proof -
  let ?df = "scenario_frame 99"
  let ?res = "build_result ''KRW-BTC'' 99 ?df"
  note run = analyze_scenario_frame[of 99 mute mute "''KRW-BTC''"]
  note t = report_compares_obv_with_zero[OF run]
  from t have none: "map_of ?res ''OBV_MA'' = None"
    by blast
  have fr: "calculate_indicators (always (scenario_candles 99)) scenario_library = Some ?df"
    by (simp add: calculate_indicators_always scenario_candles_def scenario_library_def
          scenario_frame_def)
  from t fr have line: "print_obv_line ?res
        = Some (if fgt (OBV (last ?df)) (Some 0) then OBV_buyers_lead else OBV_sellers_lead)"
    by auto
  have obv: "OBV (last ?df) = Some 5"
    unfolding last_scenario_frame by (simp add: with_candle_def scenario_row_def)
  have down: "OBV_down \<in> set (fst (rule_blocks ?df 99))"
    by (simp add: rule_blocks_sum rules_scenario_frame)
  from line obv have "print_obv_line ?res = Some OBV_buyers_lead"
    by (simp add: fgt_def)
  with run none obv obv_ma_scenario_frame[of 99] down show ?thesis
    by blast
qed

section \<open>Properties of the ranking\<close>

lemma sort_reverse_stable:
  "filter (\<lambda>x. f x = k) (sort_reverse f xs) = filter (\<lambda>x. f x = k) xs"
proof -
  have "filter (\<lambda>x. f x = k) (sort_reverse f xs)
          = rev (filter (\<lambda>x. f x = k) (sort_key f (rev xs)))"
    by (simp add: sort_reverse_def rev_filter)
  also have "\<dots> = rev (filter (\<lambda>x. f x = k) (rev xs))"
    by (simp only: sort_key_stable)
  also have "\<dots> = filter (\<lambda>x. f x = k) xs"
    by (simp add: rev_filter)
  finally show ?thesis .
qed

lemma sort_reverse_descending:
  "sorted_wrt (\<lambda>a b. f a \<ge> f b) (sort_reverse f xs)"
proof -
  have "sorted (map f (sort_key f (rev xs)))"
    by (rule sorted_sort_key)
  then have "sorted_wrt (\<lambda>a b. f a \<le> f b) (sort_key f (rev xs))"
    by (simp add: sorted_wrt_map)
  then have "sorted_wrt (\<lambda>a b. f b \<le> f a) (rev (sort_key f (rev xs)))"
    by (simp add: sorted_wrt_rev)
  then show ?thesis
    by (simp add: sort_reverse_def)
qed

lemma set_sort_reverse: "set (sort_reverse f xs) = set xs"
  by (simp add: sort_reverse_def)

lemma filter_take_prefix: "\<exists>n. filter P (take k xs) = take n (filter P xs)"
proof -
  have "filter P xs = filter P (take k xs) @ filter P (drop k xs)"
    by (metis append_take_drop_id filter_append)
  then have "take (length (filter P (take k xs))) (filter P xs) = filter P (take k xs)"
    by simp
  then show ?thesis by metis
qed

lemma volume_data_eq:
  "volume_data dly tickers
     = map (\<lambda>tk. (tk, traded_value dly tk)) (filter (\<lambda>tk. frame_ok (daily_fetch dly tk)) tickers)"
  by (induction tickers) (simp_all add: Let_def daily_fetch_def traded_value_def)

lemma daily_fetch_all_failed:
  assumes "\<forall>j<3. failed frame_ok (dly tk j)"
  shows "\<not> frame_ok (daily_fetch dly tk)"
proof -
  have "\<not> frame_ok (None :: candle list option)"
    by (simp add: frame_ok_def)
  from fetch_loop_all_failed[OF this assms] show ?thesis
    by (simp add: daily_fetch_def)
qed

lemma ranked_cases:
  "ranked m = [] \<or>
   (\<exists>tickers. listing m = Returns (Some tickers)
      \<and> ranked m = take 3 (sort_reverse snd (volume_data (daily m) tickers)))"
  by (simp add: ranked_def split: response.splits option.splits)

lemma ranked_of_listing:
  assumes "listing m = Returns (Some tickers)"
  shows "ranked m = [] \<or> ranked m = take 3 (sort_reverse snd (volume_data (daily m) tickers))"
  using assms by (simp add: ranked_def split: option.splits)

lemma take_sorted_dominates:
  assumes "sorted_wrt P xs" and "r \<in> set (take k xs)" and "e \<in> set xs" and "e \<notin> set (take k xs)"
  shows "P r e"
proof -
  have "set xs = set (take k xs) \<union> set (drop k xs)"
    by (metis append_take_drop_id set_append)
  with assms(3,4) have e: "e \<in> set (drop k xs)" by blast
  from assms(1) have "sorted_wrt P (take k xs @ drop k xs)" by simp
  then have "\<forall>x \<in> set (take k xs). \<forall>y \<in> set (drop k xs). P x y"
    by (simp only: sorted_wrt_append) blast
  with assms(2) e show ?thesis by blast
qed

lemma sorted_wrt_take: "sorted_wrt P xs \<Longrightarrow> sorted_wrt P (take k xs)"
  by (metis append_take_drop_id sorted_wrt_append)

lemma sample_volume_data:
  "volume_data sample_daily [''KRW-A'', ''KRW-B'', ''KRW-C'', ''KRW-D'', ''KRW-E'']
     = [(''KRW-A'', 50), (''KRW-B'', 100), (''KRW-C'', 50), (''KRW-E'', 30)]"
proof -
  have ok1: "frame_ok (Some [c])" for c :: candle
    by (simp add: frame_ok_def)
  have a: "fetch_loop frame_ok 3 (always [c]) 0 0 None = (Some [c], 1, 0)" for c :: candle
    by (simp add: fetch_loop_always ok1)
  have b: "fetch_loop frame_ok 3 (fail_twice_then [c]) 0 0 None = (Some [c], 3, 2)" for c :: candle
    by (rule fetch_loop_third_attempt)
       (simp_all add: fail_twice_then_def failed_def frame_ok_def)
  have n: "fst (fetch_loop frame_ok 3 (never :: candle list provider) 0 0 None) = None"
    by (simp add: never_def eval_nat_numeral)
  show ?thesis
    by (simp add: sample_daily_def a b n frame_ok_def flat_candle_def)
qed

lemma sample_ranked:
  "ranked sample_market = [(''KRW-B'', 100), (''KRW-A'', 50), (''KRW-C'', 50)]"
proof -
  have mk: "fst (fetch_loop (\<lambda>markets. markets \<noteq> None) 3
                   (always ([] :: (string \<times> real) list)) 0 0 None) = Some []"
    by (simp add: fetch_loop_always)
  have r0: "ranked sample_market
          = take 3 (sort_reverse snd
              (volume_data sample_daily [''KRW-A'', ''KRW-B'', ''KRW-C'', ''KRW-D'', ''KRW-E'']))"
    using mk by (simp add: ranked_def sample_market_def)
  have srt: "take 3 (sort_reverse snd
                [(''KRW-A'', 50 :: real), (''KRW-B'', 100), (''KRW-C'', 50), (''KRW-E'', 30)])
               = [(''KRW-B'', 100), (''KRW-A'', 50), (''KRW-C'', 50)]"
    by (simp add: sort_reverse_def)
  show ?thesis
    unfolding r0 sample_volume_data by (rule srt)
qed

text \<open>
  Claim C6, as stated, fails on the bound: the function takes no argument and cuts
  the ranking at three, so a caller has no way to ask for the top two. On the sample
  listing it returns three tickers.
\<close>

theorem ranking_fixed_size_counterexample:
  "get_top_volume_tickers sample_market = [''KRW-B'', ''KRW-A'', ''KRW-C'']
   \<and> \<not> length (get_top_volume_tickers sample_market) \<le> 2"
  by (simp add: get_top_volume_tickers_def sample_ranked)

text \<open>
  Claim C6, amended. The ranking returns at most three tickers, in descending order
  of the product of the latest daily volume and close. Every ticker it returns is in
  the provider's listing and had its daily candle delivered within three attempts: a
  ticker whose three attempts all fail is absent, not ranked at zero. Tickers of
  equal value appear in the order of the listing, and no candidate left out is worth
  more than one that is returned.
\<close>

theorem ranking_top_three:
  "length (get_top_volume_tickers m) \<le> 3
   \<and> get_top_volume_tickers m = map fst (ranked m)
   \<and> sorted_wrt (\<lambda>a b. snd a \<ge> snd b) (ranked m)
   \<and> (\<forall>e \<in> set (ranked m).
         frame_ok (daily_fetch (daily m) (fst e))
         \<and> snd e = traded_value (daily m) (fst e)
         \<and> (\<exists>tickers. listing m = Returns (Some tickers) \<and> fst e \<in> set tickers))
   \<and> (\<forall>tk. (\<forall>j<3. failed frame_ok (daily m tk j)) \<longrightarrow> tk \<notin> set (get_top_volume_tickers m))
   \<and> (\<forall>tickers v. listing m = Returns (Some tickers) \<longrightarrow>
         (\<exists>n. filter (\<lambda>e. snd e = v) (ranked m)
                = take n (map (\<lambda>tk. (tk, v))
                           (filter (\<lambda>tk. frame_ok (daily_fetch (daily m) tk)
                                         \<and> traded_value (daily m) tk = v) tickers))))
   \<and> (\<forall>tickers. listing m = Returns (Some tickers) \<and> ranked m \<noteq> [] \<longrightarrow>
         (\<forall>e \<in> set (volume_data (daily m) tickers). e \<notin> set (ranked m) \<longrightarrow>
            (\<forall>r \<in> set (ranked m). snd e \<le> snd r)))"
proof -
  let ?P = "\<lambda>a b :: string \<times> real. snd a \<ge> snd b"
  have len: "length (ranked m) \<le> 3"
    using ranked_cases[of m] by auto
  then have c1: "length (get_top_volume_tickers m) \<le> 3"
    by (simp add: get_top_volume_tickers_def)
  have c2: "get_top_volume_tickers m = map fst (ranked m)"
    by (simp add: get_top_volume_tickers_def)
  have c3: "sorted_wrt ?P (ranked m)"
    using ranked_cases[of m] sorted_wrt_take[OF sort_reverse_descending[of snd]]
    by auto
  have c4: "\<forall>e \<in> set (ranked m).
         frame_ok (daily_fetch (daily m) (fst e))
         \<and> snd e = traded_value (daily m) (fst e)
         \<and> (\<exists>tickers. listing m = Returns (Some tickers) \<and> fst e \<in> set tickers)"
  proof
    fix e assume e: "e \<in> set (ranked m)"
    then have "ranked m \<noteq> []" by auto
    with ranked_cases[of m] obtain tickers where l: "listing m = Returns (Some tickers)"
      and r: "ranked m = take 3 (sort_reverse snd (volume_data (daily m) tickers))"
      by blast
    from e r have "e \<in> set (sort_reverse snd (volume_data (daily m) tickers))"
      by (metis in_set_takeD)
    then have "e \<in> set (volume_data (daily m) tickers)"
      by (simp add: set_sort_reverse)
    then have "frame_ok (daily_fetch (daily m) (fst e))
         \<and> snd e = traded_value (daily m) (fst e) \<and> fst e \<in> set tickers"
      by (auto simp: volume_data_eq)
    with l show "frame_ok (daily_fetch (daily m) (fst e))
         \<and> snd e = traded_value (daily m) (fst e)
         \<and> (\<exists>tickers. listing m = Returns (Some tickers) \<and> fst e \<in> set tickers)"
      by blast
  qed
  have c5: "\<forall>tk. (\<forall>j<3. failed frame_ok (daily m tk j)) \<longrightarrow> tk \<notin> set (get_top_volume_tickers m)"
  proof (intro allI impI)
    fix tk assume f: "\<forall>j<3. failed frame_ok (daily m tk j)"
    show "tk \<notin> set (get_top_volume_tickers m)"
    proof
      assume "tk \<in> set (get_top_volume_tickers m)"
      then obtain e where "e \<in> set (ranked m)" "fst e = tk"
        by (auto simp: get_top_volume_tickers_def)
      with c4 have "frame_ok (daily_fetch (daily m) tk)" by blast
      with daily_fetch_all_failed[where dly="daily m" and tk=tk, OF f] show False by simp
    qed
  qed
  have c6: "\<forall>tickers v. listing m = Returns (Some tickers) \<longrightarrow>
         (\<exists>n. filter (\<lambda>e. snd e = v) (ranked m)
                = take n (map (\<lambda>tk. (tk, v))
                           (filter (\<lambda>tk. frame_ok (daily_fetch (daily m) tk)
                                         \<and> traded_value (daily m) tk = v) tickers)))"
  proof (intro allI impI)
    fix tickers v assume l: "listing m = Returns (Some tickers)"
    let ?cands = "map (\<lambda>tk. (tk, v))
                    (filter (\<lambda>tk. frame_ok (daily_fetch (daily m) tk)
                                  \<and> traded_value (daily m) tk = v) tickers)"
    let ?vd = "volume_data (daily m) tickers"
    from ranked_of_listing[OF l]
    show "\<exists>n. filter (\<lambda>e. snd e = v) (ranked m) = take n ?cands"
    proof
      assume "ranked m = []"
      then have "filter (\<lambda>e. snd e = v) (ranked m) = take 0 ?cands" by simp
      then show ?thesis by blast
    next
      assume r: "ranked m = take 3 (sort_reverse snd ?vd)"
      from filter_take_prefix[of "\<lambda>e. snd e = v" 3 "sort_reverse snd ?vd"]
      obtain n where "filter (\<lambda>e. snd e = v) (take 3 (sort_reverse snd ?vd))
                        = take n (filter (\<lambda>e. snd e = v) (sort_reverse snd ?vd))"
        by blast
      then have "filter (\<lambda>e. snd e = v) (ranked m) = take n (filter (\<lambda>e. snd e = v) ?vd)"
        by (simp only: r sort_reverse_stable)
      moreover have "filter (\<lambda>e. snd e = v) ?vd = ?cands"
        unfolding volume_data_eq
        by (induction tickers) auto
      ultimately show ?thesis by metis
    qed
  qed
  have c7: "\<forall>tickers. listing m = Returns (Some tickers) \<and> ranked m \<noteq> [] \<longrightarrow>
         (\<forall>e \<in> set (volume_data (daily m) tickers). e \<notin> set (ranked m) \<longrightarrow>
            (\<forall>r \<in> set (ranked m). snd e \<le> snd r))"
  proof (intro allI impI ballI)
    fix tickers e r
    assume h: "listing m = Returns (Some tickers) \<and> ranked m \<noteq> []"
      and e: "e \<in> set (volume_data (daily m) tickers)" and ne: "e \<notin> set (ranked m)"
      and r: "r \<in> set (ranked m)"
    let ?xs = "sort_reverse snd (volume_data (daily m) tickers)"
    from h ranked_of_listing[of m tickers] have eq: "ranked m = take 3 ?xs"
      by blast
    have s: "sorted_wrt ?P ?xs" by (rule sort_reverse_descending)
    from e have ex: "e \<in> set ?xs" by (simp add: set_sort_reverse)
    from take_sorted_dominates[OF s, of r 3 e] r ne ex eq
    show "snd e \<le> snd r" by simp
  qed
  show ?thesis
    by (rule conjI[OF c1 conjI[OF c2 conjI[OF c3 conjI[OF c4 conjI[OF c5 conjI[OF c6 c7]]]]]])
qed

theorem ranking_top_three_witness:
  "failed frame_ok (daily sample_market ''KRW-D'' 0)
   \<and> failed frame_ok (daily sample_market ''KRW-D'' 1)
   \<and> failed frame_ok (daily sample_market ''KRW-D'' 2)
   \<and> ''KRW-D'' \<notin> set (get_top_volume_tickers sample_market)
   \<and> listing sample_market = Returns (Some [''KRW-A'', ''KRW-B'', ''KRW-C'', ''KRW-D'', ''KRW-E''])
   \<and> ranked sample_market \<noteq> []
   \<and> (''KRW-E'', 30) \<in> set (volume_data (daily sample_market)
                                [''KRW-A'', ''KRW-B'', ''KRW-C'', ''KRW-D'', ''KRW-E''])
   \<and> (''KRW-E'', 30) \<notin> set (ranked sample_market)
   \<and> list_all (\<lambda>r. 30 \<le> snd r) (ranked sample_market)
   \<and> (''KRW-A'', 50) \<in> set (ranked sample_market)
   \<and> frame_ok (daily_fetch (daily sample_market) ''KRW-A'')
   \<and> length (get_top_volume_tickers sample_market) \<le> 3"
proof -
  let ?tickers = "[''KRW-A'', ''KRW-B'', ''KRW-C'', ''KRW-D'', ''KRW-E'']"
  note t = ranking_top_three[of sample_market]
  have d: "daily sample_market = sample_daily"
    by (simp add: sample_market_def)
  have h1: "\<forall>j<3. failed frame_ok (daily sample_market ''KRW-D'' j)"
    by (simp add: d sample_daily_def never_def failed_def)
  have h2: "listing sample_market = Returns (Some ?tickers)"
    by (simp add: sample_market_def)
  have h3: "ranked sample_market \<noteq> []"
    by (simp add: sample_ranked)
  have h4: "(''KRW-E'', 30) \<in> set (volume_data (daily sample_market) ?tickers)"
    unfolding d sample_volume_data by simp
  have h5: "(''KRW-E'', 30) \<notin> set (ranked sample_market)"
    by (simp add: sample_ranked)
  have h6: "(''KRW-A'', 50) \<in> set (ranked sample_market)"
    by (simp add: sample_ranked)
  from t h1 have r1: "''KRW-D'' \<notin> set (get_top_volume_tickers sample_market)"
    by blast
  from t h2 h3 have "\<forall>e \<in> set (volume_data (daily sample_market) ?tickers).
        e \<notin> set (ranked sample_market) \<longrightarrow> (\<forall>r \<in> set (ranked sample_market). snd e \<le> snd r)"
    by blast
  with h4 h5 have "\<forall>r \<in> set (ranked sample_market). 30 \<le> snd r"
    by fastforce
  then have r2: "list_all (\<lambda>r. 30 \<le> snd r) (ranked sample_market)"
    by (simp add: list_all_iff)
  have e: "failed frame_ok (daily sample_market ''KRW-D'' 0)
           \<and> failed frame_ok (daily sample_market ''KRW-D'' 1)
           \<and> failed frame_ok (daily sample_market ''KRW-D'' 2)"
    by (simp add: d sample_daily_def never_def failed_def)
  from t h6 have r3: "frame_ok (daily_fetch (daily sample_market) ''KRW-A'')"
    by fastforce
  from t have r4: "length (get_top_volume_tickers sample_market) \<le> 3"
    by blast
  from e r1 h2 h3 h4 h5 r2 h6 r3 r4 show ?thesis
    by blast
qed

end
